theory Spec2Isabelle
  imports Complex_Main
begin

section \<open>Values, errors and the network\<close>

text \<open>
  The two scripts (\<^verbatim>\<open>get-devices.js\<close> and its extended successor) talk to the hub through
  \<^verbatim>\<open>https.request\<close> and hand back whatever \<^verbatim>\<open>JSON.parse\<close> produced. The values they move
  around are therefore parsed JSON values. A number is kept as a rational; a literal too
  large for a double parses to an infinity, which is kept apart (its sign is the flag).
\<close>

datatype json =
    JNull
  | JBool bool
  | JNum rat
  | JInf bool
  | JStr string
  | JArr "json list"
  | JObj "(string \<times> json) list"

text \<open>A thrown JavaScript \<^verbatim>\<open>Error\<close>; the scripts only ever read its \<^verbatim>\<open>message\<close>.\<close>

datatype js_error = Error (message: string)

text \<open>
  JavaScript's truthiness on parsed JSON: \<^verbatim>\<open>null\<close>, \<^verbatim>\<open>false\<close>, zero and the empty string
  are falsy, everything else (arrays and objects included) is truthy. \<^verbatim>\<open>undefined\<close>, the
  value of a missing property, is \<open>None\<close> and falsy.
\<close>

fun truthy :: "json \<Rightarrow> bool" where
  "truthy JNull = False"
| "truthy (JBool b) = b"
| "truthy (JNum n) = (n \<noteq> 0)"
| "truthy (JInf _) = True"
| "truthy (JStr s) = (s \<noteq> [])"
| "truthy (JArr _) = True"
| "truthy (JObj _) = True"

definition ToBoolean :: "json option \<Rightarrow> bool" where
  "ToBoolean v = (case v of None \<Rightarrow> False | Some j \<Rightarrow> truthy j)"

text \<open>
  The property read \<^verbatim>\<open>value.key\<close> for a key that no prototype defines (the scripts read
  \<^verbatim>\<open>authkey\<close>, \<^verbatim>\<open>devices\<close>, \<^verbatim>\<open>rooms\<close> and \<^verbatim>\<open>scenes\<close>): on \<^verbatim>\<open>null\<close> it throws a TypeError,
  on an object it is the own property or \<^verbatim>\<open>undefined\<close>, on every other value it is
  \<^verbatim>\<open>undefined\<close>.
\<close>

fun get_prop :: "json \<Rightarrow> string \<Rightarrow> js_error + json option" where
  "get_prop JNull k =
     Inl (Error (''Cannot read properties of null (reading '' @ [CHR 0x27] @ k @ [CHR 0x27] @ '')''))"
| "get_prop (JObj kvs) k = Inr (map_of kvs k)"
| "get_prop _ k = Inr None"

text \<open>The \<^verbatim>\<open>options\<close> object that \<^verbatim>\<open>makeRequest\<close> passes to \<^verbatim>\<open>https.request\<close>.\<close>

record request =
  hostname :: string
  port :: nat
  path :: string
  "method" :: string
  headers :: "(string \<times> json) list"
  rejectUnauthorized :: bool

text \<open>
  What happens to a request once it is issued: either the request object emits
  \<^verbatim>\<open>error\<close> (a failure below HTTP, with the error's message), or the response ends, with a
  status code and the chunks its \<^verbatim>\<open>data\<close> events delivered. The network answers a request
  knowing the requests issued before it. A request that does neither leaves the promise
  pending; the model covers the runs in which every request settles. The state the
  operations thread is the list of requests issued so far, oldest first.
\<close>

datatype outcome =
    ErrorEvent string
  | Response nat "string list"

type_synonym network = "request list \<Rightarrow> request \<Rightarrow> outcome"

type_synonym 'a io = "request list \<Rightarrow> (js_error + 'a) \<times> request list"

section \<open>The transport: \<^verbatim>\<open>makeRequest\<close>\<close>

text \<open>
  \<^verbatim>\<open>BASE_URL\<close> is \<^verbatim>\<open>https://10.1.1.40/cws/api\<close>; every path the scripts pass is a literal
  without query, fragment or dot segments, so \<^verbatim>\<open>url.pathname\<close> is the base path followed by
  the argument, \<^verbatim>\<open>url.port\<close> is empty and the port falls back to 443. \<^verbatim>\<open>JSON.parse\<close> is a
  parameter: \<open>None\<close> where it throws. The status code is never read.
\<close>

definition makeRequest ::
  "(string \<Rightarrow> json option) \<Rightarrow> network \<Rightarrow> string \<Rightarrow> (string \<times> json) list \<Rightarrow> string \<Rightarrow> json io"
where
  "makeRequest JSON_parse net pth hdrs mth sent =
     (let options = \<lparr>hostname = ''10.1.1.40'', port = 443, path = ''/cws/api'' @ pth,
                      method = mth, headers = hdrs, rejectUnauthorized = False\<rparr>;
          sent' = sent @ [options]
      in case net sent options of
           ErrorEvent msg \<Rightarrow> (Inl (Error msg), sent')
         | Response status chunks \<Rightarrow>
             (let data = foldl (@) [] chunks
              in case JSON_parse data of
                   Some jsonData \<Rightarrow> (Inr jsonData, sent')
                 | None \<Rightarrow> (Inl (Error (''Invalid JSON response: '' @ data)), sent')))"

section \<open>The operations\<close>

text \<open>\<^verbatim>\<open>WEB_API_TOKEN\<close> is a module constant (empty in one script, set in the other); it is
  the first argument here.\<close>

definition getAuthKey ::
  "string \<Rightarrow> (string \<Rightarrow> json option) \<Rightarrow> network \<Rightarrow> json io"
where
  "getAuthKey WEB_API_TOKEN JSON_parse net sent =
     (case makeRequest JSON_parse net ''/login''
             [(''Crestron-RestAPI-AuthToken'', JStr WEB_API_TOKEN)] ''GET'' sent of
        (Inl error, sent') \<Rightarrow>
          (Inl (Error (''Failed to get auth key: '' @ message error)), sent')
      | (Inr response, sent') \<Rightarrow>
          (case get_prop response ''authkey'' of
             Inl error \<Rightarrow> (Inl (Error (''Failed to get auth key: '' @ message error)), sent')
           | Inr authkey \<Rightarrow>
               (if ToBoolean authkey then (Inr (the authkey), sent')
                else (Inl (Error (''Failed to get auth key: '' @ ''No auth key in response'')),
                      sent'))))"

definition getDevices :: "(string \<Rightarrow> json option) \<Rightarrow> network \<Rightarrow> json \<Rightarrow> json io" where
  "getDevices JSON_parse net authKey sent =
     (case makeRequest JSON_parse net ''/devices''
             [(''Crestron-RestAPI-AuthKey'', authKey)] ''GET'' sent of
        (Inl error, sent') \<Rightarrow> (Inl (Error (''Failed to get devices: '' @ message error)), sent')
      | (Inr response, sent') \<Rightarrow> (Inr response, sent'))"

definition getSensors :: "(string \<Rightarrow> json option) \<Rightarrow> network \<Rightarrow> json \<Rightarrow> json io" where
  "getSensors JSON_parse net authKey sent =
     (case makeRequest JSON_parse net ''/sensors''
             [(''Crestron-RestAPI-AuthKey'', authKey)] ''GET'' sent of
        (Inl error, sent') \<Rightarrow> (Inl (Error (''Failed to get sensors: '' @ message error)), sent')
      | (Inr response, sent') \<Rightarrow> (Inr response, sent'))"

definition getRooms :: "(string \<Rightarrow> json option) \<Rightarrow> network \<Rightarrow> json \<Rightarrow> json io" where
  "getRooms JSON_parse net authKey sent =
     (case makeRequest JSON_parse net ''/rooms''
             [(''Crestron-RestAPI-AuthKey'', authKey)] ''GET'' sent of
        (Inl error, sent') \<Rightarrow> (Inl (Error (''Failed to get rooms: '' @ message error)), sent')
      | (Inr response, sent') \<Rightarrow> (Inr response, sent'))"

definition getScenes :: "(string \<Rightarrow> json option) \<Rightarrow> network \<Rightarrow> json \<Rightarrow> json io" where
  "getScenes JSON_parse net authKey sent =
     (case makeRequest JSON_parse net ''/scenes''
             [(''Crestron-RestAPI-AuthKey'', authKey)] ''GET'' sent of
        (Inl error, sent') \<Rightarrow> (Inl (Error (''Failed to get scenes: '' @ message error)), sent')
      | (Inr response, sent') \<Rightarrow> (Inr response, sent'))"

definition getSecurityDevices ::
  "(string \<Rightarrow> json option) \<Rightarrow> network \<Rightarrow> json \<Rightarrow> json io"
where
  "getSecurityDevices JSON_parse net authKey sent =
     (case makeRequest JSON_parse net ''/securitydevices''
             [(''Crestron-RestAPI-AuthKey'', authKey)] ''GET'' sent of
        (Inl error, sent') \<Rightarrow>
          (Inl (Error (''Failed to get Security devices: '' @ message error)), sent')
      | (Inr response, sent') \<Rightarrow> (Inr response, sent'))"

definition getMediaRooms :: "(string \<Rightarrow> json option) \<Rightarrow> network \<Rightarrow> json \<Rightarrow> json io" where
  "getMediaRooms JSON_parse net authKey sent =
     (case makeRequest JSON_parse net ''/mediarooms''
             [(''Crestron-RestAPI-AuthKey'', authKey)] ''GET'' sent of
        (Inl error, sent') \<Rightarrow>
          (Inl (Error (''Failed to get media rooms: '' @ message error)), sent')
      | (Inr response, sent') \<Rightarrow> (Inr response, sent'))"

definition playInLivingRoom ::
  "(string \<Rightarrow> json option) \<Rightarrow> network \<Rightarrow> json \<Rightarrow> json io"
where
  "playInLivingRoom JSON_parse net authKey sent =
     (case makeRequest JSON_parse net ''/mediarooms/1006/selectsource/53750''
             [(''Crestron-RestAPI-AuthKey'', authKey)] ''POST'' sent of
        (Inl error, sent') \<Rightarrow>
          (Inl (Error (''Failed to get media rooms: '' @ message error)), sent')
      | (Inr response, sent') \<Rightarrow> (Inr response, sent'))"

section \<open>The two \<^verbatim>\<open>main\<close> functions\<close>

text \<open>
  \<^verbatim>\<open>Promise.all\<close> over promises that have all been created: it fulfils with every value, in
  the order of its argument, once all are fulfilled, and rejects with the reason of the
  promise that is rejected first in time. \<open>order\<close> lists the positions in the order in
  which they settle; a position it leaves out settles after those it lists, in argument
  order.
\<close>

definition promise_all :: "nat list \<Rightarrow> (js_error + 'a) list \<Rightarrow> js_error + 'a list" where
  "promise_all order ps =
     (case filter (\<lambda>i. i < length ps \<and> isl (ps ! i)) (order @ [0..<length ps]) of
        [] \<Rightarrow> Inr (map projr ps)
      | i # _ \<Rightarrow> Inl (projl (ps ! i)))"

text \<open>
  The array literal \<^verbatim>\<open>[getDevices(authKey), ..., playInLivingRoom(authKey)]\<close> of the extended
  script. Each call runs up to its first \<^verbatim>\<open>await\<close> when the array is built, so the seven
  requests are issued in the order written, before any response is read. A promise is
  represented by the outcome it settles with.
\<close>

definition main_batch ::
  "(string \<Rightarrow> json option) \<Rightarrow> network \<Rightarrow> json \<Rightarrow>
   request list \<Rightarrow> (js_error + json) list \<times> request list"
where
  "main_batch JSON_parse net authKey sent =
     (let (p0, s0) = getDevices JSON_parse net authKey sent;
          (p1, s1) = getSensors JSON_parse net authKey s0;
          (p2, s2) = getRooms JSON_parse net authKey s1;
          (p3, s3) = getScenes JSON_parse net authKey s2;
          (p4, s4) = getSecurityDevices JSON_parse net authKey s3;
          (p5, s5) = getMediaRooms JSON_parse net authKey s4;
          (p6, s6) = playInLivingRoom JSON_parse net authKey s5
      in ([p0, p1, p2, p3, p4, p5, p6], s6))"

text \<open>The expression \<^verbatim>\<open>await Promise.all([...])\<close> over that array.\<close>

definition main_fetch_all ::
  "(string \<Rightarrow> json option) \<Rightarrow> network \<Rightarrow> nat list \<Rightarrow> json \<Rightarrow> (json list) io"
where
  "main_fetch_all JSON_parse net order authKey sent =
     (let (ps, s) = main_batch JSON_parse net authKey sent
      in (promise_all order ps, s))"

text \<open>
  The summary lines read \<^verbatim>\<open>devices.devices\<close>, \<^verbatim>\<open>sensors.devices\<close>, \<^verbatim>\<open>rooms.rooms\<close> and
  \<^verbatim>\<open>scenes.scenes\<close>; they only print, but the read throws when the response was \<^verbatim>\<open>null\<close>.
\<close>

definition summary_line :: "json \<Rightarrow> string \<Rightarrow> js_error + unit" where
  "summary_line v k = (case get_prop v k of Inl error \<Rightarrow> Inl error | Inr _ \<Rightarrow> Inr ())"

text \<open>
  \<^verbatim>\<open>main\<close> of the extended script. \<open>Inl\<close> is the error it prints before \<^verbatim>\<open>process.exit(1)\<close>;
  \<open>Inr\<close> is the object it writes to the file, without the \<^verbatim>\<open>timestamp\<close> member (the wall
  clock). The file system is taken to accept the write.
\<close>

definition main ::
  "string \<Rightarrow> (string \<Rightarrow> json option) \<Rightarrow> network \<Rightarrow> nat list \<Rightarrow> json io"
where
  "main WEB_API_TOKEN JSON_parse net order sent =
     (case getAuthKey WEB_API_TOKEN JSON_parse net sent of
        (Inl error, s1) \<Rightarrow> (Inl error, s1)
      | (Inr authKey, s1) \<Rightarrow>
          (case main_fetch_all JSON_parse net order authKey s1 of
             (Inl error, s2) \<Rightarrow> (Inl error, s2)
           | (Inr results, s2) \<Rightarrow>
               (let devices = results ! 0; sensors = results ! 1; rooms = results ! 2;
                    scenes = results ! 3; securityDevices = results ! 4;
                    mediaRooms = results ! 5; playAction = results ! 6;
                    allData = JObj [(''devices'', devices), (''sensors'', sensors),
                                    (''rooms'', rooms), (''scenes'', scenes),
                                    (''securityDevices'', securityDevices),
                                    (''mediaRooms'', mediaRooms), (''playAction'', playAction)]
                in case summary_line devices ''devices'' of
                     Inl error \<Rightarrow> (Inl error, s2)
                   | Inr _ \<Rightarrow>
                 (case summary_line sensors ''devices'' of
                     Inl error \<Rightarrow> (Inl error, s2)
                   | Inr _ \<Rightarrow>
                 (case summary_line rooms ''rooms'' of
                     Inl error \<Rightarrow> (Inl error, s2)
                   | Inr _ \<Rightarrow>
                 (case summary_line scenes ''scenes'' of
                     Inl error \<Rightarrow> (Inl error, s2)
                   | Inr _ \<Rightarrow> (Inr allData, s2)))))))"

text \<open>\<^verbatim>\<open>main\<close> of \<^verbatim>\<open>get-devices.js\<close>: log in, read the sensors, write them out.\<close>

definition main_get_devices ::
  "string \<Rightarrow> (string \<Rightarrow> json option) \<Rightarrow> network \<Rightarrow> json io"
where
  "main_get_devices WEB_API_TOKEN JSON_parse net sent =
     (case getAuthKey WEB_API_TOKEN JSON_parse net sent of
        (Inl error, s1) \<Rightarrow> (Inl error, s1)
      | (Inr authKey, s1) \<Rightarrow>
          (case getSensors JSON_parse net authKey s1 of
             (Inl error, s2) \<Rightarrow> (Inl error, s2)
           | (Inr devices, s2) \<Rightarrow>
               (case summary_line devices ''devices'' of
                  Inl error \<Rightarrow> (Inl error, s2)
                | Inr _ \<Rightarrow> (Inr devices, s2))))"

section \<open>The light command of the specification\<close>

text \<open>
  The scripts have no operation that sets light levels; the integration that does is not
  among the sources at hand. The definitions of this section follow the specification.
\<close>

text \<open>
  Modelled from the spec: the \<^verbatim>\<open>CommandRequest\<close> of \<^verbatim>\<open>setLightLevels\<close>, an element
  \<^verbatim>\<open>{ id, level, time }\<close> of the body of \<^verbatim>\<open>POST /lights/SetState\<close>. "\<^verbatim>\<open>time\<close> (fade duration)
  must be a non-negative integer of milliseconds", which the type carries; the level is
  any integer, since the operation is there to refuse some.
\<close>

record CommandRequest =
  light_id :: int
  level :: int
  time :: nat

text \<open>
  Modelled from the spec: the errors of \<^verbatim>\<open>setLightLevels\<close>, "\<^verbatim>\<open>ValidationError\<close> naming the
  offending id" and the \<^verbatim>\<open>ApiError\<close> of the dispatch.
\<close>

datatype client_error =
    ValidationError int
  | ApiError string

text \<open>Modelled from the spec: "each element's \<^verbatim>\<open>level\<close> must lie in [0, 65535]".\<close>

definition level_in_range :: "int \<Rightarrow> bool" where
  "level_in_range l = (0 \<le> l \<and> l \<le> 65535)"

text \<open>
  Modelled from the spec: \<^verbatim>\<open>setLightLevels\<close>, which no source file defines. "A request with
  level out of range fails validation locally before any network call, with
  ValidationError naming the offending id"; otherwise it "issues one batched mutation".
  The dispatch (the specification's \<^verbatim>\<open>call\<close> for \<^verbatim>\<open>POST /lights/SetState\<close>) is the parameter
  \<open>call\<close>; it is the only access to the list of requests issued.
\<close>

definition setLightLevels ::
  "(CommandRequest list \<Rightarrow> request list \<Rightarrow> (client_error + 'r) \<times> request list) \<Rightarrow>
   CommandRequest list \<Rightarrow> request list \<Rightarrow> (client_error + 'r) \<times> request list"
where
  "setLightLevels call requests sent =
     (case find (\<lambda>r. \<not> level_in_range (level r)) requests of
        Some r \<Rightarrow> (Inl (ValidationError (light_id r)), sent)
      | None \<Rightarrow> call requests sent)"

text \<open>A dispatch for running the statement: one \<^verbatim>\<open>POST\<close> to the hub, answered by success.\<close>

definition call_sample ::
  "CommandRequest list \<Rightarrow> request list \<Rightarrow> (client_error + string) \<times> request list"
where
  "call_sample requests sent =
     (Inr ''success'',
      sent @ [\<lparr>hostname = ''10.1.1.40'', port = 443, path = ''/cws/api/lights/SetState'',
               method = ''POST'', headers = [], rejectUnauthorized = False\<rparr>])"

section \<open>Vocabulary for the statements\<close>

text \<open>The \<^verbatim>\<open>options\<close> object \<^verbatim>\<open>makeRequest\<close> builds from its three arguments.\<close>

definition request_options :: "string \<Rightarrow> (string \<times> json) list \<Rightarrow> string \<Rightarrow> request" where
  "request_options pth hdrs mth =
     \<lparr>hostname = ''10.1.1.40'', port = 443, path = ''/cws/api'' @ pth,
      method = mth, headers = hdrs, rejectUnauthorized = False\<rparr>"

text \<open>The TypeError of reading the property \<open>k\<close> of \<^verbatim>\<open>null\<close>.\<close>

definition null_read_error :: "string \<Rightarrow> js_error" where
  "null_read_error k =
     Error (''Cannot read properties of null (reading '' @ [CHR 0x27] @ k @ [CHR 0x27] @ '')'')"

text \<open>The login round trips among the requests issued.\<close>

definition is_login :: "request \<Rightarrow> bool" where
  "is_login r = (path r = ''/cws/api/login'')"

definition logins :: "request list \<Rightarrow> nat" where
  "logins sent = length (filter is_login sent)"

text \<open>The number of requests issued to a path.\<close>

definition requests_to :: "string \<Rightarrow> request list \<Rightarrow> nat" where
  "requests_to pth sent = length (filter (\<lambda>r. path r = ''/cws/api'' @ pth) sent)"

text \<open>\<open>sent'\<close> is \<open>sent\<close> followed by requests that all satisfy \<open>Q\<close>.\<close>

definition appends_only :: "(request \<Rightarrow> bool) \<Rightarrow> request list \<Rightarrow> request list \<Rightarrow> bool" where
  "appends_only Q sent sent' =
     (take (length sent) sent' = sent \<and> list_all Q (drop (length sent) sent'))"

text \<open>The request of the login, and the request of an operation that takes the key.\<close>

definition login_request :: "string \<Rightarrow> request" where
  "login_request tok =
     request_options ''/login'' [(''Crestron-RestAPI-AuthToken'', JStr tok)] ''GET''"

definition keyed_request :: "string \<Rightarrow> string \<Rightarrow> json \<Rightarrow> request" where
  "keyed_request pth mth authKey =
     request_options pth [(''Crestron-RestAPI-AuthKey'', authKey)] mth"

text \<open>
  The operations that take the session key, each with the path, the method and the words
  of its error message: the six reads, then all seven with the media command.
\<close>

definition read_operations ::
  "(string \<times> string \<times> string \<times>
    ((string \<Rightarrow> json option) \<Rightarrow> network \<Rightarrow> json \<Rightarrow> json io)) list"
where
  "read_operations =
     [(''/devices'', ''GET'', ''devices'', getDevices),
      (''/sensors'', ''GET'', ''sensors'', getSensors),
      (''/rooms'', ''GET'', ''rooms'', getRooms),
      (''/scenes'', ''GET'', ''scenes'', getScenes),
      (''/securitydevices'', ''GET'', ''Security devices'', getSecurityDevices),
      (''/mediarooms'', ''GET'', ''media rooms'', getMediaRooms)]"

definition keyed_operations ::
  "(string \<times> string \<times> string \<times>
    ((string \<Rightarrow> json option) \<Rightarrow> network \<Rightarrow> json \<Rightarrow> json io)) list"
where
  "keyed_operations =
     read_operations @
     [(''/mediarooms/1006/selectsource/53750'', ''POST'', ''media rooms'', playInLivingRoom)]"

section \<open>Sample hubs\<close>

text \<open>
  A parser that knows the handful of bodies the sample hubs send, and throws on anything
  else, stands in for \<^verbatim>\<open>JSON.parse\<close> where a statement is run on a concrete hub.
\<close>

definition parse_sample :: "string \<Rightarrow> json option" where
  \<open>parse_sample data =
     (if data = ''{"authkey":"K1"}'' then Some (JObj [(''authkey'', JStr ''K1'')])
      else if data = ''{"authkey":""}'' then Some (JObj [(''authkey'', JStr [])])
      else if data = ''{}'' then Some (JObj [])
      else if data = ''{"devices":[{"id":7,"level":"high"}]}''
        then Some (JObj [(''devices'',
                      JArr [JObj [(''id'', JNum 7), (''level'', JStr ''high'')]])])
      else if data = ''null'' then Some JNull
      else if data = ''1'' then Some (JNum 1)
      else if data = ''2'' then Some (JNum 2)
      else if data = ''3'' then Some (JNum 3)
      else if data = ''4'' then Some (JNum 4)
      else if data = ''5'' then Some (JNum 5)
      else if data = ''6'' then Some (JNum 6)
      else if data = ''7'' then Some (JNum 7)
      else None)\<close>

definition login_ok :: outcome where
  \<open>login_ok = Response 200 [''{"authkey":'', ''"K1"}'']\<close>

text \<open>A hub that answers the login and answers every other request with an empty object.\<close>

definition hub_ok :: network where
  "hub_ok sent r = (if is_login r then login_ok else Response 200 [''{}''])"

text \<open>A hub whose sessions are always expired: the login works, every other request is
  refused with status 401 and a body that is not JSON.\<close>

definition hub_expired :: network where
  "hub_expired sent r = (if is_login r then login_ok else Response 401 [''Unauthorized''])"

text \<open>A hub that answers the login with status 500 and a body that carries a key.\<close>

definition hub_login_500 :: network where
  \<open>hub_login_500 sent r = Response 500 [''{"authkey":"K1"}'']\<close>

text \<open>A hub whose device list has a \<^verbatim>\<open>level\<close> that is not a number.\<close>

definition hub_malformed :: network where
  \<open>hub_malformed sent r =
     (if is_login r then login_ok
      else Response 200 [''{"devices":[{"id":7,"level":"high"}]}''])\<close>

text \<open>A hub that is fine except that the connection for the sensor list is refused.\<close>

definition hub_sensors_down :: network where
  "hub_sensors_down sent r =
     (if is_login r then login_ok
      else if path r = ''/cws/api/sensors''
        then ErrorEvent ''connect ECONNREFUSED 10.1.1.40:443''
      else Response 200 [''{}''])"


text \<open>A hub that answers each of the seven paths of the extended script with a number of
  its own, 1 for the device list up to 7 for the media command.\<close>

definition hub_numbered :: network where
  "hub_numbered sent r =
     (if is_login r then login_ok
      else if path r = ''/cws/api/devices'' then Response 200 [''1'']
      else if path r = ''/cws/api/sensors'' then Response 200 [''2'']
      else if path r = ''/cws/api/rooms'' then Response 200 [''3'']
      else if path r = ''/cws/api/scenes'' then Response 200 [''4'']
      else if path r = ''/cws/api/securitydevices'' then Response 200 [''5'']
      else if path r = ''/cws/api/mediarooms'' then Response 200 [''6'']
      else Response 200 [''7''])"

section \<open>Basic facts\<close>

lemma foldl_append_concat: "foldl (@) acc chunks = acc @ concat chunks"
  by (induction chunks arbitrary: acc) simp_all

text \<open>\<^verbatim>\<open>makeRequest\<close> in one equation: the result depends on the outcome of the one request
  it issues, and that request is appended to those issued.\<close>

lemma makeRequest_eq:
  "makeRequest P net pth hdrs mth sent =
     (case net sent (request_options pth hdrs mth) of
        ErrorEvent msg \<Rightarrow> Inl (Error msg)
      | Response status chunks \<Rightarrow>
          (case P (concat chunks) of
             Some j \<Rightarrow> Inr j
           | None \<Rightarrow> Inl (Error (''Invalid JSON response: '' @ concat chunks))),
      sent @ [request_options pth hdrs mth])"
  by (simp add: makeRequest_def request_options_def Let_def foldl_append_concat
           split: outcome.splits option.splits)

text \<open>Each operation that takes the key, in one equation.\<close>

lemma keyed_operation_eq:
  assumes "(pth, mth, label, f) \<in> set keyed_operations"
  shows "f P net k sent =
     (case net sent (keyed_request pth mth k) of
        ErrorEvent msg \<Rightarrow> Inl (Error (''Failed to get '' @ label @ '': '' @ msg))
      | Response status chunks \<Rightarrow>
          (case P (concat chunks) of
             Some j \<Rightarrow> Inr j
           | None \<Rightarrow> Inl (Error (''Failed to get '' @ label @ '': '' @
                                   ''Invalid JSON response: '' @ concat chunks))),
      sent @ [keyed_request pth mth k])"
  using assms
  unfolding keyed_operations_def read_operations_def keyed_request_def
  by (auto simp: getDevices_def getSensors_def getRooms_def getScenes_def
        getSecurityDevices_def getMediaRooms_def playInLivingRoom_def makeRequest_eq
        split: outcome.splits option.splits)

lemma read_operations_keyed: "set read_operations \<subseteq> set keyed_operations"
  by (auto simp: keyed_operations_def)

lemma keyed_members:
  "(''/devices'', ''GET'', ''devices'', getDevices) \<in> set keyed_operations"
  "(''/sensors'', ''GET'', ''sensors'', getSensors) \<in> set keyed_operations"
  "(''/rooms'', ''GET'', ''rooms'', getRooms) \<in> set keyed_operations"
  "(''/scenes'', ''GET'', ''scenes'', getScenes) \<in> set keyed_operations"
  "(''/securitydevices'', ''GET'', ''Security devices'', getSecurityDevices)
     \<in> set keyed_operations"
  "(''/mediarooms'', ''GET'', ''media rooms'', getMediaRooms) \<in> set keyed_operations"
  "(''/mediarooms/1006/selectsource/53750'', ''POST'', ''media rooms'', playInLivingRoom)
     \<in> set keyed_operations"
  by (simp_all add: keyed_operations_def read_operations_def)

lemma getAuthKey_eq:
  "getAuthKey tok P net sent =
     (case net sent (login_request tok) of
        ErrorEvent msg \<Rightarrow> Inl (Error (''Failed to get auth key: '' @ msg))
      | Response status chunks \<Rightarrow>
          (case P (concat chunks) of
             None \<Rightarrow> Inl (Error (''Failed to get auth key: '' @
                                  ''Invalid JSON response: '' @ concat chunks))
           | Some response \<Rightarrow>
               (case get_prop response ''authkey'' of
                  Inl e \<Rightarrow> Inl (Error (''Failed to get auth key: '' @ message e))
                | Inr v \<Rightarrow>
                    if ToBoolean v then Inr (the v)
                    else Inl (Error (''Failed to get auth key: No auth key in response'')))),
      sent @ [login_request tok])"
  by (simp add: getAuthKey_def makeRequest_eq login_request_def
        split: outcome.splits option.splits sum.splits)

subsection \<open>The requests each operation issues\<close>

lemma snd_getAuthKey: "snd (getAuthKey tok P net sent) = sent @ [login_request tok]"
  by (simp add: getAuthKey_eq)

lemma snd_keyed_operation:
  "(pth, mth, label, f) \<in> set keyed_operations \<Longrightarrow>
     snd (f P net k sent) = sent @ [keyed_request pth mth k]"
  by (simp add: keyed_operation_eq)

lemma snd_main_batch:
  "snd (main_batch P net k sent) =
     sent @ map (\<lambda>(pth, mth, label, f). keyed_request pth mth k) keyed_operations"
  by (simp add: main_batch_def keyed_members[THEN keyed_operation_eq]
        keyed_operations_def read_operations_def)

lemma length_main_batch: "length (fst (main_batch P net k sent)) = 7"
  by (simp add: main_batch_def keyed_members[THEN keyed_operation_eq])

lemma snd_main_fetch_all:
  "snd (main_fetch_all P net order k sent) = snd (main_batch P net k sent)"
  by (simp add: main_fetch_all_def split_beta)

lemma fst_main_fetch_all:
  "fst (main_fetch_all P net order k sent) = promise_all order (fst (main_batch P net k sent))"
  by (simp add: main_fetch_all_def split_beta)

lemma snd_main:
  "snd (main tok P net order sent) =
     (case fst (getAuthKey tok P net sent) of
        Inl e \<Rightarrow> sent @ [login_request tok]
      | Inr k \<Rightarrow> sent @ login_request tok #
                  map (\<lambda>(pth, mth, label, f). keyed_request pth mth k) keyed_operations)"
proof (cases "getAuthKey tok P net sent")
  case (Pair res s1)
  then have s1: "s1 = sent @ [login_request tok]"
    using snd_getAuthKey[of tok P net sent] by simp
  show ?thesis
  proof (cases res)
    case (Inl e)
    with Pair s1 show ?thesis by (simp add: main_def)
  next
    case (Inr k)
    obtain r2 s2 where m: "main_fetch_all P net order k s1 = (r2, s2)"
      by (cases "main_fetch_all P net order k s1")
    then have "s2 = snd (main_batch P net k s1)"
      using snd_main_fetch_all[of P net order k s1] by simp
    then have s2: "s2 = sent @ login_request tok #
        map (\<lambda>(pth, mth, label, f). keyed_request pth mth k) keyed_operations"
      by (simp add: snd_main_batch s1)
    from Pair Inr m s2 show ?thesis
      by (simp add: main_def Let_def split: sum.splits)
  qed
qed

lemma snd_main_get_devices:
  "snd (main_get_devices tok P net sent) =
     (case fst (getAuthKey tok P net sent) of
        Inl e \<Rightarrow> sent @ [login_request tok]
      | Inr k \<Rightarrow> sent @ [login_request tok, keyed_request ''/sensors'' ''GET'' k])"
  by (simp add: main_get_devices_def getAuthKey_eq keyed_members(2)[THEN keyed_operation_eq]
        split: outcome.splits option.splits sum.splits)

subsection \<open>Counting logins\<close>

lemma logins_append: "logins (xs @ ys) = logins xs + logins ys"
  by (simp add: logins_def)

lemma is_login_login_request: "is_login (login_request tok)"
  by (simp add: is_login_def login_request_def request_options_def)

lemma not_login_keyed_request:
  "(pth, mth, label, f) \<in> set keyed_operations \<Longrightarrow> \<not> is_login (keyed_request pth mth k)"
  by (auto simp: keyed_operations_def read_operations_def is_login_def keyed_request_def
        request_options_def)

lemma logins_keyed_requests:
  "logins (map (\<lambda>(pth, mth, label, f). keyed_request pth mth k) keyed_operations) = 0"
  using not_login_keyed_request[of _ _ _ _ k]
  by (auto simp: logins_def filter_empty_conv)

lemma logins_single_login: "logins [login_request tok] = 1"
  by (simp add: logins_def is_login_login_request)

lemma logins_main: "logins (snd (main tok P net order sent)) = logins sent + 1"
proof (cases "fst (getAuthKey tok P net sent)")
  case (Inl e)
  then show ?thesis
    by (simp add: snd_main logins_append logins_single_login)
next
  case (Inr k)
  then have "snd (main tok P net order sent) =
      sent @ [login_request tok] @
        map (\<lambda>(pth, mth, label, f). keyed_request pth mth k) keyed_operations"
    by (simp add: snd_main)
  then show ?thesis
    by (simp only: logins_append logins_keyed_requests logins_single_login)
qed

lemma logins_main_get_devices:
  "logins (snd (main_get_devices tok P net sent)) = logins sent + 1"
  using not_login_keyed_request[OF keyed_members(2)]
  by (cases "fst (getAuthKey tok P net sent)")
     (simp_all add: snd_main_get_devices logins_def is_login_login_request)

subsection \<open>What the \<^verbatim>\<open>main\<close> functions do with the results\<close>

lemma summary_line_eq:
  "summary_line v k = (if v = JNull then Inl (null_read_error k) else Inr ())"
  by (cases v) (simp_all add: summary_line_def null_read_error_def)

lemma promise_all_Inr: "promise_all order ps = Inr rs \<Longrightarrow> rs = map projr ps"
  by (simp add: promise_all_def split: list.splits)

lemma main_batch_rejected:
  assumes "getAuthKey tok P net sent = (Inr k, s1)"
    and "fst (main_fetch_all P net order k s1) = Inl e"
  shows "main tok P net order sent = (Inl e, snd (main_batch P net k s1))"
proof -
  from assms(2) have "main_fetch_all P net order k s1 = (Inl e, snd (main_batch P net k s1))"
    using snd_main_fetch_all[of P net order k s1] by (simp add: prod_eq_iff)
  with assms(1) show ?thesis by (simp add: main_def)
qed

lemma main_batch_fulfilled:
  assumes "getAuthKey tok P net sent = (Inr k, s1)"
    and "fst (main_fetch_all P net order k s1) = Inr [d, s, r, sc, sd, m, p]"
  shows "main tok P net order sent =
     (if d = JNull then Inl (null_read_error ''devices'')
      else if s = JNull then Inl (null_read_error ''devices'')
      else if r = JNull then Inl (null_read_error ''rooms'')
      else if sc = JNull then Inl (null_read_error ''scenes'')
      else Inr (JObj [(''devices'', d), (''sensors'', s), (''rooms'', r), (''scenes'', sc),
                      (''securityDevices'', sd), (''mediaRooms'', m), (''playAction'', p)]),
      snd (main_batch P net k s1))"
proof -
  from assms(2) have "main_fetch_all P net order k s1 =
      (Inr [d, s, r, sc, sd, m, p], snd (main_batch P net k s1))"
    using snd_main_fetch_all[of P net order k s1] by (simp add: prod_eq_iff)
  with assms(1) show ?thesis by (simp add: main_def summary_line_eq)
qed


text \<open>The seven promises of the batch, one by one: each operation is started on the
  requests issued so far.\<close>

lemma fst_main_batch:
  "fst (main_batch P net k sent) =
     [fst (getDevices P net k sent),
      fst (getSensors P net k (sent @ [keyed_request ''/devices'' ''GET'' k])),
      fst (getRooms P net k (sent @ [keyed_request ''/devices'' ''GET'' k,
             keyed_request ''/sensors'' ''GET'' k])),
      fst (getScenes P net k (sent @ [keyed_request ''/devices'' ''GET'' k,
             keyed_request ''/sensors'' ''GET'' k, keyed_request ''/rooms'' ''GET'' k])),
      fst (getSecurityDevices P net k (sent @ [keyed_request ''/devices'' ''GET'' k,
             keyed_request ''/sensors'' ''GET'' k, keyed_request ''/rooms'' ''GET'' k,
             keyed_request ''/scenes'' ''GET'' k])),
      fst (getMediaRooms P net k (sent @ [keyed_request ''/devices'' ''GET'' k,
             keyed_request ''/sensors'' ''GET'' k, keyed_request ''/rooms'' ''GET'' k,
             keyed_request ''/scenes'' ''GET'' k, keyed_request ''/securitydevices'' ''GET'' k])),
      fst (playInLivingRoom P net k (sent @ [keyed_request ''/devices'' ''GET'' k,
             keyed_request ''/sensors'' ''GET'' k, keyed_request ''/rooms'' ''GET'' k,
             keyed_request ''/scenes'' ''GET'' k, keyed_request ''/securitydevices'' ''GET'' k,
             keyed_request ''/mediarooms'' ''GET'' k]))]"
  by (simp add: main_batch_def keyed_members[THEN keyed_operation_eq])

section \<open>The transport and the status code\<close>

text \<open>
  Claim C9. The transport never looks at the HTTP status. \<^verbatim>\<open>makeRequest\<close> resolves with a
  value exactly when the response ended with a body that parses, and then with the parsed
  body, whatever the status; it rejects exactly when the request emitted an error or the
  body does not parse; and two responses that differ only in their status give the same
  result, so a caller cannot tell an HTTP error with a JSON body from a success.
\<close>

theorem makeRequest_ignores_status:
  "(fst (makeRequest P net pth hdrs mth sent) = Inr j \<longleftrightarrow>
      (\<exists>status chunks. net sent (request_options pth hdrs mth) = Response status chunks \<and>
                       P (concat chunks) = Some j)) \<and>
   (isl (fst (makeRequest P net pth hdrs mth sent)) \<longleftrightarrow>
      (\<exists>msg. net sent (request_options pth hdrs mth) = ErrorEvent msg) \<or>
      (\<exists>status chunks. net sent (request_options pth hdrs mth) = Response status chunks \<and>
                       P (concat chunks) = None)) \<and>
   (net sent (request_options pth hdrs mth) = Response status chunks \<longrightarrow>
    net' sent (request_options pth hdrs mth) = Response status' chunks \<longrightarrow>
      makeRequest P net' pth hdrs mth sent = makeRequest P net pth hdrs mth sent)"
proof (intro conjI impI)
  show "fst (makeRequest P net pth hdrs mth sent) = Inr j \<longleftrightarrow>
      (\<exists>status chunks. net sent (request_options pth hdrs mth) = Response status chunks \<and>
                       P (concat chunks) = Some j)"
    by (cases "net sent (request_options pth hdrs mth)")
       (auto simp: makeRequest_eq split: option.splits)
  show "isl (fst (makeRequest P net pth hdrs mth sent)) \<longleftrightarrow>
      (\<exists>msg. net sent (request_options pth hdrs mth) = ErrorEvent msg) \<or>
      (\<exists>status chunks. net sent (request_options pth hdrs mth) = Response status chunks \<and>
                       P (concat chunks) = None)"
    by (cases "net sent (request_options pth hdrs mth)")
       (auto simp: makeRequest_eq split: option.splits)
next
  assume "net sent (request_options pth hdrs mth) = Response status chunks"
    and "net' sent (request_options pth hdrs mth) = Response status' chunks"
  then show "makeRequest P net' pth hdrs mth sent = makeRequest P net pth hdrs mth sent"
    by (simp add: makeRequest_eq)
qed

text \<open>A login answered with status 500 and a JSON body resolves like the same body under
  status 200.\<close>

theorem makeRequest_ignores_status_witness:
  \<open>hub_login_500 [] (request_options ''/login'' [] ''GET'') =
     Response 500 [''{"authkey":"K1"}''] \<and>
   fst (makeRequest parse_sample hub_login_500 ''/login'' [] ''GET'' []) =
     Inr (JObj [(''authkey'', JStr ''K1'')]) \<and>
   makeRequest parse_sample (\<lambda>sent r. Response 200 [''{"authkey":"K1"}''])
       ''/login'' [] ''GET'' [] =
     makeRequest parse_sample hub_login_500 ''/login'' [] ''GET'' []\<close>
  using makeRequest_ignores_status
          [of parse_sample hub_login_500 "''/login''" "[]" "''GET''" "[]"
              "JObj [(''authkey'', JStr ''K1'')]" 500 \<open>[''{"authkey":"K1"}'']\<close>
              \<open>\<lambda>sent r. Response 200 [''{"authkey":"K1"}'']\<close> 200]
  by (simp add: hub_login_500_def request_options_def parse_sample_def)

section \<open>Certificate validation\<close>

lemma appends_only_append: "appends_only Q sent (sent @ new) = list_all Q new"
  by (simp add: appends_only_def)

lemma unverified_request_options: "\<not> rejectUnauthorized (request_options pth hdrs mth)"
  by (simp add: request_options_def)

text \<open>
  Claim C10. Every request an operation issues is configured with
  \<^verbatim>\<open>rejectUnauthorized: false\<close>: \<^verbatim>\<open>makeRequest\<close> for any path, headers and method, the login,
  each operation that takes the key, and both \<^verbatim>\<open>main\<close> functions leave the earlier
  requests as they were and add only requests with certificate validation switched off.
\<close>

theorem requests_skip_certificate_validation:
  "appends_only (\<lambda>r. \<not> rejectUnauthorized r) sent
     (snd (makeRequest P net pth hdrs mth sent)) \<and>
   appends_only (\<lambda>r. \<not> rejectUnauthorized r) sent (snd (getAuthKey tok P net sent)) \<and>
   (\<forall>(pth, mth, label, f) \<in> set keyed_operations.
      appends_only (\<lambda>r. \<not> rejectUnauthorized r) sent (snd (f P net k sent))) \<and>
   appends_only (\<lambda>r. \<not> rejectUnauthorized r) sent (snd (main tok P net order sent)) \<and>
   appends_only (\<lambda>r. \<not> rejectUnauthorized r) sent (snd (main_get_devices tok P net sent))"
proof (intro conjI)
  show "appends_only (\<lambda>r. \<not> rejectUnauthorized r) sent
          (snd (makeRequest P net pth hdrs mth sent))"
    by (simp add: makeRequest_eq appends_only_append unverified_request_options)
  show "appends_only (\<lambda>r. \<not> rejectUnauthorized r) sent (snd (getAuthKey tok P net sent))"
    by (simp add: snd_getAuthKey appends_only_append login_request_def
          unverified_request_options)
  show "\<forall>(pth, mth, label, f) \<in> set keyed_operations.
          appends_only (\<lambda>r. \<not> rejectUnauthorized r) sent (snd (f P net k sent))"
    by (auto simp: snd_keyed_operation appends_only_append keyed_request_def
          unverified_request_options)
  have batch: "list_all (\<lambda>r. \<not> rejectUnauthorized r)
      (map (\<lambda>(pth, mth, label, f). keyed_request pth mth k') keyed_operations)" for k'
    by (simp add: list_all_iff keyed_request_def unverified_request_options split_beta)
  show "appends_only (\<lambda>r. \<not> rejectUnauthorized r) sent (snd (main tok P net order sent))"
    using batch
    by (cases "fst (getAuthKey tok P net sent)")
       (simp_all add: snd_main appends_only_append login_request_def
          unverified_request_options)
  show "appends_only (\<lambda>r. \<not> rejectUnauthorized r) sent
          (snd (main_get_devices tok P net sent))"
    by (cases "fst (getAuthKey tok P net sent)")
       (simp_all add: snd_main_get_devices appends_only_append login_request_def
          keyed_request_def unverified_request_options)
qed

text \<open>On the sample hub the media command issues one request, a \<^verbatim>\<open>POST\<close>, unverified.\<close>

theorem requests_skip_certificate_validation_witness:
  "(''/mediarooms/1006/selectsource/53750'', ''POST'', ''media rooms'', playInLivingRoom)
     \<in> set keyed_operations \<and>
   snd (playInLivingRoom parse_sample hub_ok (JStr ''K1'') []) =
     [\<lparr>hostname = ''10.1.1.40'', port = 443,
       path = ''/cws/api/mediarooms/1006/selectsource/53750'', method = ''POST'',
       headers = [(''Crestron-RestAPI-AuthKey'', JStr ''K1'')],
       rejectUnauthorized = False\<rparr>] \<and>
   appends_only (\<lambda>r. \<not> rejectUnauthorized r) []
     (snd (playInLivingRoom parse_sample hub_ok (JStr ''K1'') []))"
  using requests_skip_certificate_validation
          [of "[]" parse_sample hub_ok "''/login''" "[]" "''GET''" "''T1''" "JStr ''K1''" "[]"]
  by (simp add: keyed_operations_def read_operations_def playInLivingRoom_def
        makeRequest_def hub_ok_def is_login_def parse_sample_def)

section \<open>Headers\<close>

text \<open>
  Claim C7. The login is one \<^verbatim>\<open>GET\<close> to \<^verbatim>\<open>/login\<close> (under the base path) that carries the
  credential in the header \<^verbatim>\<open>Crestron-RestAPI-AuthToken\<close> and nothing else. Each operation
  that takes the key issues one request whose only header is \<^verbatim>\<open>Crestron-RestAPI-AuthKey\<close>
  with that key; and when the login of a run returns a key, every request the run issues
  after the login (seven in the extended script, one in \<^verbatim>\<open>get-devices.js\<close>) carries that
  key in that header.
\<close>

theorem login_and_session_headers:
  "snd (getAuthKey tok P net sent) =
     sent @ [\<lparr>hostname = ''10.1.1.40'', port = 443, path = ''/cws/api/login'',
              method = ''GET'', headers = [(''Crestron-RestAPI-AuthToken'', JStr tok)],
              rejectUnauthorized = False\<rparr>] \<and>
   (\<forall>(pth, mth, label, f) \<in> set keyed_operations.
      \<exists>r. snd (f P net k' sent) = sent @ [r] \<and> path r = ''/cws/api'' @ pth \<and>
          method r = mth \<and> headers r = [(''Crestron-RestAPI-AuthKey'', k')]) \<and>
   (fst (getAuthKey tok P net sent) = Inr k \<longrightarrow>
      appends_only (\<lambda>r. headers r = [(''Crestron-RestAPI-AuthKey'', k)])
        (snd (getAuthKey tok P net sent)) (snd (main tok P net order sent)) \<and>
      length (snd (main tok P net order sent)) = length sent + 8 \<and>
      appends_only (\<lambda>r. headers r = [(''Crestron-RestAPI-AuthKey'', k)])
        (snd (getAuthKey tok P net sent)) (snd (main_get_devices tok P net sent)) \<and>
      length (snd (main_get_devices tok P net sent)) = length sent + 2)"
proof (intro conjI impI)
  show "snd (getAuthKey tok P net sent) =
     sent @ [\<lparr>hostname = ''10.1.1.40'', port = 443, path = ''/cws/api/login'',
              method = ''GET'', headers = [(''Crestron-RestAPI-AuthToken'', JStr tok)],
              rejectUnauthorized = False\<rparr>]"
    by (simp add: snd_getAuthKey login_request_def request_options_def)
  show "\<forall>(pth, mth, label, f) \<in> set keyed_operations.
      \<exists>r. snd (f P net k' sent) = sent @ [r] \<and> path r = ''/cws/api'' @ pth \<and>
          method r = mth \<and> headers r = [(''Crestron-RestAPI-AuthKey'', k')]"
    by (auto simp: snd_keyed_operation keyed_request_def request_options_def)
next
  assume key: "fst (getAuthKey tok P net sent) = Inr k"
  have batch: "list_all (\<lambda>r. headers r = [(''Crestron-RestAPI-AuthKey'', k)])
      (map (\<lambda>(pth, mth, label, f). keyed_request pth mth k) keyed_operations)"
    by (simp add: list_all_iff keyed_request_def request_options_def split_beta)
  have run: "snd (main tok P net order sent) =
      (sent @ [login_request tok]) @
        map (\<lambda>(pth, mth, label, f). keyed_request pth mth k) keyed_operations"
    using key by (simp add: snd_main)
  show "appends_only (\<lambda>r. headers r = [(''Crestron-RestAPI-AuthKey'', k)])
        (snd (getAuthKey tok P net sent)) (snd (main tok P net order sent))"
    unfolding run snd_getAuthKey appends_only_append by (rule batch)
  show "length (snd (main tok P net order sent)) = length sent + 8"
    unfolding run by (simp add: keyed_operations_def read_operations_def)
  have run': "snd (main_get_devices tok P net sent) =
      (sent @ [login_request tok]) @ [keyed_request ''/sensors'' ''GET'' k]"
    using key by (simp add: snd_main_get_devices)
  show "appends_only (\<lambda>r. headers r = [(''Crestron-RestAPI-AuthKey'', k)])
        (snd (getAuthKey tok P net sent)) (snd (main_get_devices tok P net sent))"
    unfolding run' snd_getAuthKey appends_only_append
    by (simp add: keyed_request_def request_options_def)
  show "length (snd (main_get_devices tok P net sent)) = length sent + 2"
    unfolding run' by simp
qed

text \<open>A run of \<^verbatim>\<open>get-devices.js\<close> against the sample hub: the login carries the token
  \<^verbatim>\<open>T1\<close>, the read that follows carries the key \<^verbatim>\<open>K1\<close> the hub handed out.\<close>

theorem login_and_session_headers_witness:
  "fst (getAuthKey ''T1'' parse_sample hub_ok []) = Inr (JStr ''K1'') \<and>
   (''/sensors'', ''GET'', ''sensors'', getSensors) \<in> set keyed_operations \<and>
   snd (main_get_devices ''T1'' parse_sample hub_ok []) =
     [\<lparr>hostname = ''10.1.1.40'', port = 443, path = ''/cws/api/login'',
       method = ''GET'', headers = [(''Crestron-RestAPI-AuthToken'', JStr ''T1'')],
       rejectUnauthorized = False\<rparr>,
      \<lparr>hostname = ''10.1.1.40'', port = 443, path = ''/cws/api/sensors'',
       method = ''GET'', headers = [(''Crestron-RestAPI-AuthKey'', JStr ''K1'')],
       rejectUnauthorized = False\<rparr>] \<and>
   appends_only (\<lambda>r. headers r = [(''Crestron-RestAPI-AuthKey'', JStr ''K1'')])
     (snd (getAuthKey ''T1'' parse_sample hub_ok []))
     (snd (main ''T1'' parse_sample hub_ok [0, 1, 2, 3, 4, 5, 6] [])) \<and>
   length (snd (main ''T1'' parse_sample hub_ok [0, 1, 2, 3, 4, 5, 6] [])) = 8"
proof -
  have key: "fst (getAuthKey ''T1'' parse_sample hub_ok []) = Inr (JStr ''K1'')"
    by (simp add: getAuthKey_eq hub_ok_def login_ok_def is_login_login_request
          parse_sample_def ToBoolean_def)
  have mem: "(''/sensors'', ''GET'', ''sensors'', getSensors) \<in> set keyed_operations"
    by (rule keyed_members)
  have run: "snd (main_get_devices ''T1'' parse_sample hub_ok []) =
     [\<lparr>hostname = ''10.1.1.40'', port = 443, path = ''/cws/api/login'',
       method = ''GET'', headers = [(''Crestron-RestAPI-AuthToken'', JStr ''T1'')],
       rejectUnauthorized = False\<rparr>,
      \<lparr>hostname = ''10.1.1.40'', port = 443, path = ''/cws/api/sensors'',
       method = ''GET'', headers = [(''Crestron-RestAPI-AuthKey'', JStr ''K1'')],
       rejectUnauthorized = False\<rparr>]"
    by (simp add: snd_main_get_devices key login_request_def keyed_request_def
          request_options_def)
  from login_and_session_headers
         [of "''T1''" parse_sample hub_ok "[]" "JStr ''K1''" "JStr ''K1''" "[0, 1, 2, 3, 4, 5, 6]"]
       key mem run
  show ?thesis by (elim conjE impE) simp_all
qed

section \<open>Login, then read\<close>

lemma logins_Nil: "logins [] = 0"
  by (simp add: logins_def)

text \<open>
  Claim C6. After a login that returned a key, a read operation run next issues exactly
  one request, to its own path and with that key; it issues no login, so the two steps
  together made exactly one login round trip; and whenever the hub answers the read with a
  body that parses, the read succeeds with the parsed body.
\<close>

theorem read_after_login_needs_no_second_login:
  assumes login: "getAuthKey tok P net sent = (Inr k, s1)"
    and op: "(pth, mth, label, f) \<in> set read_operations"
  shows "snd (f P net k s1) = sent @ [login_request tok, keyed_request pth mth k] \<and>
         logins (snd (f P net k s1)) = logins sent + 1 \<and>
         (net s1 (keyed_request pth mth k) = Response status chunks \<longrightarrow>
          P (concat chunks) = Some j \<longrightarrow> fst (f P net k s1) = Inr j)"
proof -
  from op have keyed: "(pth, mth, label, f) \<in> set keyed_operations"
    using read_operations_keyed by blast
  from login have s1: "s1 = sent @ [login_request tok]"
    using snd_getAuthKey[of tok P net sent] by simp
  have trace: "snd (f P net k s1) = sent @ [login_request tok, keyed_request pth mth k]"
    by (simp add: snd_keyed_operation[OF keyed] s1)
  have "logins [login_request tok, keyed_request pth mth k] = 1"
    using not_login_keyed_request[OF keyed, of k]
    by (simp add: logins_def is_login_login_request)
  then have count: "logins (snd (f P net k s1)) = logins sent + 1"
    by (simp only: trace logins_append)
  have result: "fst (f P net k s1) = Inr j"
    if "net s1 (keyed_request pth mth k) = Response status chunks"
      and "P (concat chunks) = Some j"
    using that by (simp add: keyed_operation_eq[OF keyed])
  from trace count result show ?thesis by blast
qed

text \<open>Against the sample hub: the login returns \<^verbatim>\<open>K1\<close>, the room list read with it
  succeeds, and the two requests issued hold one login.\<close>

theorem read_after_login_needs_no_second_login_witness:
  \<open>getAuthKey ''T1'' parse_sample hub_ok [] = (Inr (JStr ''K1''), [login_request ''T1'']) \<and>
   (''/rooms'', ''GET'', ''rooms'', getRooms) \<in> set read_operations \<and>
   hub_ok [login_request ''T1''] (keyed_request ''/rooms'' ''GET'' (JStr ''K1'')) =
     Response 200 [''{}''] \<and>
   parse_sample (concat [''{}'']) = Some (JObj []) \<and>
   fst (getRooms parse_sample hub_ok (JStr ''K1'') [login_request ''T1'']) = Inr (JObj []) \<and>
   logins (snd (getRooms parse_sample hub_ok (JStr ''K1'') [login_request ''T1''])) = 1\<close>
proof -
  have login: "getAuthKey ''T1'' parse_sample hub_ok [] =
      (Inr (JStr ''K1''), [login_request ''T1''])"
    by (simp add: getAuthKey_eq hub_ok_def login_ok_def is_login_login_request
          parse_sample_def ToBoolean_def)
  have op: "(''/rooms'', ''GET'', ''rooms'', getRooms) \<in> set read_operations"
    by (simp add: read_operations_def)
  have answer: "hub_ok [login_request ''T1''] (keyed_request ''/rooms'' ''GET'' (JStr ''K1'')) =
      Response 200 [''{}'']"
    by (simp add: hub_ok_def is_login_def keyed_request_def request_options_def)
  have body: "parse_sample (concat [''{}'']) = Some (JObj [])"
    by (simp add: parse_sample_def)
  from read_after_login_needs_no_second_login
         [OF login op, of 200 "[''{}'']" "JObj []"] answer body
  have "fst (getRooms parse_sample hub_ok (JStr ''K1'') [login_request ''T1'']) = Inr (JObj []) \<and>
        logins (snd (getRooms parse_sample hub_ok (JStr ''K1'') [login_request ''T1''])) = 1"
    by (elim conjE impE) (simp_all add: logins_Nil)
  with login op answer body show ?thesis by blast
qed

section \<open>No re-authentication\<close>

lemma logins_keyed_request:
  "(pth, mth, label, f) \<in> set keyed_operations \<Longrightarrow> logins [keyed_request pth mth k] = 0"
  using not_login_keyed_request[of pth mth label f k] by (simp add: logins_def)

text \<open>
  Claim C1, as amended. The scripts have no re-authentication and no replay. Whatever the
  hub answers, a refusal of an expired session included, an operation that takes the key
  issues exactly one request and no login; an answer whose body parses is returned as the
  result, whatever its status, and one whose body does not parse is the error
  \<^verbatim>\<open>Failed to get ...: Invalid JSON response: ...\<close>. A run of either \<^verbatim>\<open>main\<close> issues exactly
  one login.
\<close>

theorem one_login_and_no_replay:
  "logins (snd (main tok P net order sent)) = logins sent + 1 \<and>
   logins (snd (main_get_devices tok P net sent)) = logins sent + 1 \<and>
   (\<forall>(pth, mth, label, f) \<in> set keyed_operations.
      snd (f P net k sent) = sent @ [keyed_request pth mth k] \<and>
      logins (snd (f P net k sent)) = logins sent \<and>
      (\<forall>status chunks.
         net sent (keyed_request pth mth k) = Response status chunks \<longrightarrow>
         fst (f P net k sent) =
           (case P (concat chunks) of
              Some j \<Rightarrow> Inr j
            | None \<Rightarrow> Inl (Error (''Failed to get '' @ label @ '': '' @
                                    ''Invalid JSON response: '' @ concat chunks)))))"
proof (intro conjI)
  show "logins (snd (main tok P net order sent)) = logins sent + 1"
    by (rule logins_main)
  show "logins (snd (main_get_devices tok P net sent)) = logins sent + 1"
    by (rule logins_main_get_devices)
  show "\<forall>(pth, mth, label, f) \<in> set keyed_operations.
      snd (f P net k sent) = sent @ [keyed_request pth mth k] \<and>
      logins (snd (f P net k sent)) = logins sent \<and>
      (\<forall>status chunks.
         net sent (keyed_request pth mth k) = Response status chunks \<longrightarrow>
         fst (f P net k sent) =
           (case P (concat chunks) of
              Some j \<Rightarrow> Inr j
            | None \<Rightarrow> Inl (Error (''Failed to get '' @ label @ '': '' @
                                    ''Invalid JSON response: '' @ concat chunks))))"
  proof (clarify, intro conjI allI impI)
    fix pth mth label f
    assume op: "(pth, mth, label, f) \<in> set keyed_operations"
    show "snd (f P net k sent) = sent @ [keyed_request pth mth k]"
      by (rule snd_keyed_operation[OF op])
    show "logins (snd (f P net k sent)) = logins sent"
      by (simp add: snd_keyed_operation[OF op] logins_append logins_keyed_request[OF op])
    fix status chunks
    assume "net sent (keyed_request pth mth k) = Response status chunks"
    then show "fst (f P net k sent) =
           (case P (concat chunks) of
              Some j \<Rightarrow> Inr j
            | None \<Rightarrow> Inl (Error (''Failed to get '' @ label @ '': '' @
                                    ''Invalid JSON response: '' @ concat chunks)))"
      by (simp add: keyed_operation_eq[OF op])
  qed
qed

text \<open>The device list asked of the hub whose sessions are always expired: one request,
  no login, and the refusal comes back as the error of the read.\<close>

theorem one_login_and_no_replay_witness:
  "(''/devices'', ''GET'', ''devices'', getDevices) \<in> set keyed_operations \<and>
   hub_expired [] (keyed_request ''/devices'' ''GET'' (JStr ''K1'')) =
     Response 401 [''Unauthorized''] \<and>
   snd (getDevices parse_sample hub_expired (JStr ''K1'') []) =
     [keyed_request ''/devices'' ''GET'' (JStr ''K1'')] \<and>
   logins (snd (getDevices parse_sample hub_expired (JStr ''K1'') [])) = 0 \<and>
   fst (getDevices parse_sample hub_expired (JStr ''K1'') []) =
     Inl (Error ''Failed to get devices: Invalid JSON response: Unauthorized'')"
proof -
  have op: "(''/devices'', ''GET'', ''devices'', getDevices) \<in> set keyed_operations"
    by (rule keyed_members)
  have answer: "hub_expired [] (keyed_request ''/devices'' ''GET'' (JStr ''K1'')) =
      Response 401 [''Unauthorized'']"
    by (simp add: hub_expired_def is_login_def keyed_request_def request_options_def)
  have body: "parse_sample (concat [''Unauthorized'']) = None"
    by (simp add: parse_sample_def)
  from one_login_and_no_replay
         [of "''T1''" parse_sample hub_expired "[0, 1, 2, 3, 4, 5, 6]" "[]" "JStr ''K1''"]
  have "\<forall>(pth, mth, label, f) \<in> set keyed_operations.
      snd (f parse_sample hub_expired (JStr ''K1'') []) =
        [] @ [keyed_request pth mth (JStr ''K1'')] \<and>
      logins (snd (f parse_sample hub_expired (JStr ''K1'') [])) = logins [] \<and>
      (\<forall>status chunks.
         hub_expired [] (keyed_request pth mth (JStr ''K1'')) = Response status chunks \<longrightarrow>
         fst (f parse_sample hub_expired (JStr ''K1'') []) =
           (case parse_sample (concat chunks) of
              Some j \<Rightarrow> Inr j
            | None \<Rightarrow> Inl (Error (''Failed to get '' @ label @ '': '' @
                                    ''Invalid JSON response: '' @ concat chunks))))"
    by blast
  from bspec[OF this op] answer body
  have "snd (getDevices parse_sample hub_expired (JStr ''K1'') []) =
          [keyed_request ''/devices'' ''GET'' (JStr ''K1'')] \<and>
        logins (snd (getDevices parse_sample hub_expired (JStr ''K1'') [])) = 0 \<and>
        fst (getDevices parse_sample hub_expired (JStr ''K1'') []) =
          Inl (Error ''Failed to get devices: Invalid JSON response: Unauthorized'')"
    by (auto simp: logins_Nil)
  with op answer show ?thesis by blast
qed

text \<open>
  The claim as the specification words it (one re-authentication and one replay, two logins
  against an always-expired session) fails: against such a hub a run of \<^verbatim>\<open>main\<close> ends with
  the error of the first read after one login and one request for the device list.
\<close>

theorem always_expired_session_counterexample:
  "fst (main ''T1'' parse_sample hub_expired [0, 1, 2, 3, 4, 5, 6] []) =
     Inl (Error ''Failed to get devices: Invalid JSON response: Unauthorized'') \<and>
   logins (snd (main ''T1'' parse_sample hub_expired [0, 1, 2, 3, 4, 5, 6] [])) = 1 \<and>
   requests_to ''/devices'' (snd (main ''T1'' parse_sample hub_expired [0, 1, 2, 3, 4, 5, 6] [])) = 1"
proof -
  have key: "getAuthKey ''T1'' parse_sample hub_expired [] =
      (Inr (JStr ''K1''), [login_request ''T1''])"
    by (simp add: getAuthKey_eq hub_expired_def login_ok_def is_login_login_request
          parse_sample_def ToBoolean_def)
  have refused: "hub_expired s (keyed_request pth mth (JStr ''K1'')) =
      Response 401 [''Unauthorized'']"
    if "(pth, mth, label, f) \<in> set keyed_operations" for s pth mth label f
    using not_login_keyed_request[OF that] by (simp add: hub_expired_def)
  have body: "parse_sample ''Unauthorized'' = None"
    by (simp add: parse_sample_def)
  have batch: "fst (main_batch parse_sample hub_expired (JStr ''K1'') [login_request ''T1'']) ! 0 =
      Inl (Error ''Failed to get devices: Invalid JSON response: Unauthorized'')"
    by (simp add: main_batch_def keyed_members[THEN keyed_operation_eq]
          keyed_members[THEN refused] body)
  have "promise_all [0, 1, 2, 3, 4, 5, 6]
          (fst (main_batch parse_sample hub_expired (JStr ''K1'') [login_request ''T1''])) =
        Inl (Error ''Failed to get devices: Invalid JSON response: Unauthorized'')"
    using batch by (simp add: promise_all_def length_main_batch)
  then have result: "fst (main ''T1'' parse_sample hub_expired [0, 1, 2, 3, 4, 5, 6] []) =
      Inl (Error ''Failed to get devices: Invalid JSON response: Unauthorized'')"
    by (simp add: main_def key main_fetch_all_def split_beta)
  have trace: "snd (main ''T1'' parse_sample hub_expired [0, 1, 2, 3, 4, 5, 6] []) =
      login_request ''T1'' #
        map (\<lambda>(pth, mth, label, f). keyed_request pth mth (JStr ''K1'')) keyed_operations"
    by (simp add: snd_main key)
  have count: "logins (snd (main ''T1'' parse_sample hub_expired [0, 1, 2, 3, 4, 5, 6] [])) = 1"
    using logins_main[of "''T1''" parse_sample hub_expired "[0, 1, 2, 3, 4, 5, 6]" "[]"]
    by (simp add: logins_Nil)
  have once: "requests_to ''/devices''
      (snd (main ''T1'' parse_sample hub_expired [0, 1, 2, 3, 4, 5, 6] [])) = 1"
    unfolding trace
    by (simp add: requests_to_def keyed_operations_def read_operations_def keyed_request_def
          login_request_def request_options_def)
  from result count once show ?thesis by blast
qed

section \<open>Failures surface at once\<close>






section \<open>What the login accepts\<close>

lemma get_prop_Some:
  "get_prop response key = Inr (Some v) \<longleftrightarrow>
     (\<exists>kvs. response = JObj kvs \<and> map_of kvs key = Some v)"
  by (cases response) auto

text \<open>
  Claim C2, as amended. \<^verbatim>\<open>getAuthKey\<close> returns a key exactly when the login response, whatever
  its HTTP status, has a body that parses to a JSON object whose \<^verbatim>\<open>authkey\<close> member is
  truthy (a non-empty string, but also a non-zero number, \<^verbatim>\<open>true\<close>, an array or an object),
  and the key returned is that member. Every failure of \<^verbatim>\<open>getAuthKey\<close> is an error whose
  message starts with \<^verbatim>\<open>Failed to get auth key: \<close>.
\<close>

theorem getAuthKey_returns_truthy_authkey:
  "(fst (getAuthKey tok P net sent) = Inr k \<longleftrightarrow>
      (\<exists>status chunks kvs.
         net sent (login_request tok) = Response status chunks \<and>
         P (concat chunks) = Some (JObj kvs) \<and>
         map_of kvs ''authkey'' = Some k \<and> truthy k)) \<and>
   (isl (fst (getAuthKey tok P net sent)) \<longrightarrow>
      (\<exists>m. fst (getAuthKey tok P net sent) = Inl (Error (''Failed to get auth key: '' @ m))))"
proof (intro conjI)
  show "fst (getAuthKey tok P net sent) = Inr k \<longleftrightarrow>
      (\<exists>status chunks kvs.
         net sent (login_request tok) = Response status chunks \<and>
         P (concat chunks) = Some (JObj kvs) \<and>
         map_of kvs ''authkey'' = Some k \<and> truthy k)"
  proof (cases "net sent (login_request tok)")
    case (ErrorEvent msg)
    then show ?thesis by (simp add: getAuthKey_eq)
  next
    case (Response status chunks)
    show ?thesis
    proof (cases "P (concat chunks)")
      case None
      with Response show ?thesis by (simp add: getAuthKey_eq)
    next
      case (Some response)
      have "fst (getAuthKey tok P net sent) = Inr k \<longleftrightarrow>
          get_prop response ''authkey'' = Inr (Some k) \<and> truthy k"
        using Response Some
        by (auto simp: getAuthKey_eq ToBoolean_def split: sum.splits option.splits)
      also have "\<dots> \<longleftrightarrow> (\<exists>kvs. response = JObj kvs \<and> map_of kvs ''authkey'' = Some k \<and> truthy k)"
        by (auto simp: get_prop_Some)
      finally show ?thesis using Response Some by simp
    qed
  qed
  show "isl (fst (getAuthKey tok P net sent)) \<longrightarrow>
      (\<exists>m. fst (getAuthKey tok P net sent) = Inl (Error (''Failed to get auth key: '' @ m)))"
    by (simp add: getAuthKey_eq split: outcome.splits option.splits sum.splits)
qed

text \<open>The sample hub's login returns the key; a login answered with an empty \<^verbatim>\<open>authkey\<close>
  fails with the message of the missing key.\<close>

theorem getAuthKey_returns_truthy_authkey_witness:
  \<open>fst (getAuthKey ''T1'' parse_sample hub_ok []) = Inr (JStr ''K1'') \<and>
   isl (fst (getAuthKey ''T1'' parse_sample (\<lambda>sent r. Response 200 [''{"authkey":""}'']) [])) \<and>
   (\<exists>m. fst (getAuthKey ''T1'' parse_sample (\<lambda>sent r. Response 200 [''{"authkey":""}'']) []) =
          Inl (Error (''Failed to get auth key: '' @ m)))\<close>
proof -
  have answer: \<open>hub_ok [] (login_request ''T1'') = Response 200 [''{"authkey":'', ''"K1"}''] \<and>
      parse_sample (concat [''{"authkey":'', ''"K1"}'']) = Some (JObj [(''authkey'', JStr ''K1'')]) \<and>
      map_of [(''authkey'', JStr ''K1'')] ''authkey'' = Some (JStr ''K1'') \<and> truthy (JStr ''K1'')\<close>
    by (simp add: hub_ok_def login_ok_def is_login_login_request parse_sample_def)
  have key: "fst (getAuthKey ''T1'' parse_sample hub_ok []) = Inr (JStr ''K1'')"
    using getAuthKey_returns_truthy_authkey
            [of "''T1''" parse_sample hub_ok "[]" "JStr ''K1''"] answer
    by blast
  have failed: \<open>isl (fst (getAuthKey ''T1'' parse_sample
      (\<lambda>sent r. Response 200 [''{"authkey":""}'']) []))\<close>
    by (simp add: getAuthKey_eq parse_sample_def ToBoolean_def)
  from getAuthKey_returns_truthy_authkey
         [of "''T1''" parse_sample \<open>\<lambda>sent r. Response 200 [''{"authkey":""}'']\<close> "[]"] failed
  have \<open>\<exists>m. fst (getAuthKey ''T1'' parse_sample
      (\<lambda>sent r. Response 200 [''{"authkey":""}'']) []) =
      Inl (Error (''Failed to get auth key: '' @ m))\<close>
    by blast
  with key failed show ?thesis by blast
qed

text \<open>
  The claim as the specification words it fails on the status: a login answered with
  status 500 and a body that carries a key returns that key.
\<close>

theorem login_status_500_counterexample:
  \<open>hub_login_500 [] (login_request ''T1'') = Response 500 [''{"authkey":"K1"}''] \<and>
   fst (getAuthKey ''T1'' parse_sample hub_login_500 []) = Inr (JStr ''K1'')\<close>
  by (simp add: getAuthKey_eq hub_login_500_def parse_sample_def ToBoolean_def)

section \<open>What the reads return\<close>

text \<open>
  Claim C5, as amended. The six reads check no schema. Each returns the parsed body of the
  response unchanged, whatever its shape, exactly when the response ended with a body that
  parses; it fails only when the transport fails (the request emitted an error, or the
  body is not JSON), and then with \<^verbatim>\<open>Failed to get ...: \<close> followed by the transport's
  message.
\<close>

theorem reads_return_parsed_body_unchecked:
  "\<forall>(pth, mth, label, f) \<in> set read_operations.
     (fst (f P net k sent) = Inr j \<longleftrightarrow>
        (\<exists>status chunks. net sent (keyed_request pth mth k) = Response status chunks \<and>
                         P (concat chunks) = Some j)) \<and>
     (\<forall>e. fst (f P net k sent) = Inl e \<longrightarrow>
        (\<exists>msg. net sent (keyed_request pth mth k) = ErrorEvent msg \<and>
               e = Error (''Failed to get '' @ label @ '': '' @ msg)) \<or>
        (\<exists>status chunks. net sent (keyed_request pth mth k) = Response status chunks \<and>
               P (concat chunks) = None \<and>
               e = Error (''Failed to get '' @ label @ '': '' @
                          ''Invalid JSON response: '' @ concat chunks)))"
proof (clarify, intro conjI allI impI)
  fix pth mth label f
  assume "(pth, mth, label, f) \<in> set read_operations"
  then have op: "(pth, mth, label, f) \<in> set keyed_operations"
    using read_operations_keyed by blast
  show "fst (f P net k sent) = Inr j \<longleftrightarrow>
        (\<exists>status chunks. net sent (keyed_request pth mth k) = Response status chunks \<and>
                         P (concat chunks) = Some j)"
    by (auto simp: keyed_operation_eq[OF op] split: outcome.splits option.splits)
  fix e
  assume "fst (f P net k sent) = Inl e"
  then show "(\<exists>msg. net sent (keyed_request pth mth k) = ErrorEvent msg \<and>
               e = Error (''Failed to get '' @ label @ '': '' @ msg)) \<or>
        (\<exists>status chunks. net sent (keyed_request pth mth k) = Response status chunks \<and>
               P (concat chunks) = None \<and>
               e = Error (''Failed to get '' @ label @ '': '' @
                          ''Invalid JSON response: '' @ concat chunks))"
    by (auto simp: keyed_operation_eq[OF op] split: outcome.splits option.splits)
qed

text \<open>The media room list of the sample hub is the empty object, returned as it is.\<close>

theorem reads_return_parsed_body_unchecked_witness:
  "(''/mediarooms'', ''GET'', ''media rooms'', getMediaRooms) \<in> set read_operations \<and>
   hub_ok [] (keyed_request ''/mediarooms'' ''GET'' (JStr ''K1'')) = Response 200 [''{}''] \<and>
   parse_sample (concat [''{}'']) = Some (JObj []) \<and>
   fst (getMediaRooms parse_sample hub_ok (JStr ''K1'') []) = Inr (JObj [])"
proof -
  have op: "(''/mediarooms'', ''GET'', ''media rooms'', getMediaRooms) \<in> set read_operations"
    by (simp add: read_operations_def)
  have answer: "hub_ok [] (keyed_request ''/mediarooms'' ''GET'' (JStr ''K1'')) =
      Response 200 [''{}'']"
    by (simp add: hub_ok_def is_login_def keyed_request_def request_options_def)
  have body: "parse_sample (concat [''{}'']) = Some (JObj [])"
    by (simp add: parse_sample_def)
  from bspec[OF reads_return_parsed_body_unchecked
                  [of parse_sample hub_ok "JStr ''K1''" "[]" "JObj []"] op] answer body
  have "fst (getMediaRooms parse_sample hub_ok (JStr ''K1'') []) = Inr (JObj [])"
    by blast
  with op answer body show ?thesis by blast
qed

text \<open>
  The claim as the specification words it fails: a device list whose \<^verbatim>\<open>level\<close> is a string
  is returned as the result of \<^verbatim>\<open>getDevices\<close>, not refused with a schema error.
\<close>

theorem malformed_device_list_counterexample:
  "fst (getDevices parse_sample hub_malformed (JStr ''K1'') []) =
     Inr (JObj [(''devices'', JArr [JObj [(''id'', JNum 7), (''level'', JStr ''high'')]])])"
proof -
  have "\<not> is_login (keyed_request ''/devices'' ''GET'' (JStr ''K1''))"
    by (rule not_login_keyed_request[OF keyed_members(1)])
  then show ?thesis
    by (simp add: keyed_operation_eq[OF keyed_members(1)] hub_malformed_def parse_sample_def)
qed

section \<open>The batch of the extended script\<close>

lemma promise_all_fulfilled:
  assumes "list_all (\<lambda>p. \<not> isl p) ps"
  shows "promise_all order ps = Inr (map projr ps)"
proof -
  from assms have "\<not> isl (ps ! i)" if "i < length ps" for i
    using that by (simp add: list_all_length)
  then have "filter (\<lambda>i. i < length ps \<and> isl (ps ! i)) (order @ [0..<length ps]) = []"
    by (auto simp: filter_empty_conv)
  then show ?thesis
    by (simp only: promise_all_def list.case)
qed

lemma promise_all_rejected:
  assumes "\<not> list_all (\<lambda>p. \<not> isl p) ps"
  shows "\<exists>e. promise_all order ps = Inl e \<and> Inl e \<in> set ps"
proof -
  from assms obtain n where n: "n < length ps" "isl (ps ! n)"
    by (auto simp: list_all_length)
  then have "filter (\<lambda>i. i < length ps \<and> isl (ps ! i)) (order @ [0..<length ps]) \<noteq> []"
    by (auto simp: filter_empty_conv)
  then obtain i rest where
    first: "filter (\<lambda>i. i < length ps \<and> isl (ps ! i)) (order @ [0..<length ps]) = i # rest"
    by (meson neq_Nil_conv)
  then have "i \<in> set (filter (\<lambda>i. i < length ps \<and> isl (ps ! i)) (order @ [0..<length ps]))"
    by simp
  then have i: "i < length ps" "isl (ps ! i)"
    by auto
  then have "ps ! i = Inl (projl (ps ! i))"
    by simp
  with i have "Inl (projl (ps ! i)) \<in> set ps"
    by (metis nth_mem)
  moreover have "promise_all order ps = Inl (projl (ps ! i))"
    by (simp only: promise_all_def first list.case)
  ultimately show ?thesis by blast
qed

lemma promise_all_first_rejection:
  assumes "order = pre @ i # rest"
    and "\<forall>j \<in> set pre. j < length ps \<longrightarrow> \<not> isl (ps ! j)"
    and "i < length ps" and "ps ! i = Inl e"
  shows "promise_all order ps = Inl e"
proof -
  from assms(2) have "filter (\<lambda>i. i < length ps \<and> isl (ps ! i)) pre = []"
    by (auto simp: filter_empty_conv)
  with assms(1,3,4)
  have "filter (\<lambda>i. i < length ps \<and> isl (ps ! i)) (order @ [0..<length ps]) =
      i # filter (\<lambda>i. i < length ps \<and> isl (ps ! i)) (rest @ [0..<length ps])"
    by simp
  then show ?thesis
    using assms(4) by (simp only: promise_all_def list.case sum.sel)
qed

text \<open>
  Claim C3, as amended. The batch is all or nothing. The seven operations are started in
  the order written. When each of them succeeds, the caller receives all seven results,
  in that order, whatever the order in which they complete, and \<^verbatim>\<open>main\<close> writes them out
  under their names (unless one of the first four is \<^verbatim>\<open>null\<close>, whose summary line throws).
  When any of them fails, \<^verbatim>\<open>Promise.all\<close> rejects with the error of a failing operation,
  namely of the one that fails first in completion order, no result reaches the caller,
  and \<^verbatim>\<open>main\<close> ends with that very error.
\<close>

theorem batch_is_all_or_nothing:
  "fst (main_batch P net k sent) =
     [fst (getDevices P net k sent),
      fst (getSensors P net k (sent @ [keyed_request ''/devices'' ''GET'' k])),
      fst (getRooms P net k (sent @ [keyed_request ''/devices'' ''GET'' k,
             keyed_request ''/sensors'' ''GET'' k])),
      fst (getScenes P net k (sent @ [keyed_request ''/devices'' ''GET'' k,
             keyed_request ''/sensors'' ''GET'' k, keyed_request ''/rooms'' ''GET'' k])),
      fst (getSecurityDevices P net k (sent @ [keyed_request ''/devices'' ''GET'' k,
             keyed_request ''/sensors'' ''GET'' k, keyed_request ''/rooms'' ''GET'' k,
             keyed_request ''/scenes'' ''GET'' k])),
      fst (getMediaRooms P net k (sent @ [keyed_request ''/devices'' ''GET'' k,
             keyed_request ''/sensors'' ''GET'' k, keyed_request ''/rooms'' ''GET'' k,
             keyed_request ''/scenes'' ''GET'' k, keyed_request ''/securitydevices'' ''GET'' k])),
      fst (playInLivingRoom P net k (sent @ [keyed_request ''/devices'' ''GET'' k,
             keyed_request ''/sensors'' ''GET'' k, keyed_request ''/rooms'' ''GET'' k,
             keyed_request ''/scenes'' ''GET'' k, keyed_request ''/securitydevices'' ''GET'' k,
             keyed_request ''/mediarooms'' ''GET'' k]))] \<and>
   (list_all (\<lambda>p. \<not> isl p) (fst (main_batch P net k sent)) \<longrightarrow>
      fst (main_fetch_all P net order k sent) =
        Inr (map projr (fst (main_batch P net k sent))) \<and>
      length (map projr (fst (main_batch P net k sent))) = 7) \<and>
   (\<not> list_all (\<lambda>p. \<not> isl p) (fst (main_batch P net k sent)) \<longrightarrow>
      (\<exists>e. fst (main_fetch_all P net order k sent) = Inl e \<and>
           Inl e \<in> set (fst (main_batch P net k sent)) \<and>
           (getAuthKey tok P net sent' = (Inr k, sent) \<longrightarrow>
              fst (main tok P net order sent') = Inl e))) \<and>
   (\<forall>pre i rest e.
      order = pre @ i # rest \<longrightarrow>
      (\<forall>j \<in> set pre. j < 7 \<longrightarrow> \<not> isl (fst (main_batch P net k sent) ! j)) \<longrightarrow>
      i < 7 \<longrightarrow> fst (main_batch P net k sent) ! i = Inl e \<longrightarrow>
      fst (main_fetch_all P net order k sent) = Inl e \<and>
      (getAuthKey tok P net sent' = (Inr k, sent) \<longrightarrow>
         fst (main tok P net order sent') = Inl e)) \<and>
   (\<forall>d s r sc sd m p.
      getAuthKey tok P net sent' = (Inr k, sent) \<longrightarrow>
      fst (main_fetch_all P net order k sent) = Inr [d, s, r, sc, sd, m, p] \<longrightarrow>
      fst (main tok P net order sent') =
        (if d = JNull then Inl (null_read_error ''devices'')
         else if s = JNull then Inl (null_read_error ''devices'')
         else if r = JNull then Inl (null_read_error ''rooms'')
         else if sc = JNull then Inl (null_read_error ''scenes'')
         else Inr (JObj [(''devices'', d), (''sensors'', s), (''rooms'', r), (''scenes'', sc),
                         (''securityDevices'', sd), (''mediaRooms'', m),
                         (''playAction'', p)])))"
proof (intro conjI)
  show "fst (main_batch P net k sent) =
     [fst (getDevices P net k sent),
      fst (getSensors P net k (sent @ [keyed_request ''/devices'' ''GET'' k])),
      fst (getRooms P net k (sent @ [keyed_request ''/devices'' ''GET'' k,
             keyed_request ''/sensors'' ''GET'' k])),
      fst (getScenes P net k (sent @ [keyed_request ''/devices'' ''GET'' k,
             keyed_request ''/sensors'' ''GET'' k, keyed_request ''/rooms'' ''GET'' k])),
      fst (getSecurityDevices P net k (sent @ [keyed_request ''/devices'' ''GET'' k,
             keyed_request ''/sensors'' ''GET'' k, keyed_request ''/rooms'' ''GET'' k,
             keyed_request ''/scenes'' ''GET'' k])),
      fst (getMediaRooms P net k (sent @ [keyed_request ''/devices'' ''GET'' k,
             keyed_request ''/sensors'' ''GET'' k, keyed_request ''/rooms'' ''GET'' k,
             keyed_request ''/scenes'' ''GET'' k, keyed_request ''/securitydevices'' ''GET'' k])),
      fst (playInLivingRoom P net k (sent @ [keyed_request ''/devices'' ''GET'' k,
             keyed_request ''/sensors'' ''GET'' k, keyed_request ''/rooms'' ''GET'' k,
             keyed_request ''/scenes'' ''GET'' k, keyed_request ''/securitydevices'' ''GET'' k,
             keyed_request ''/mediarooms'' ''GET'' k]))]"
    by (rule fst_main_batch)
  show "list_all (\<lambda>p. \<not> isl p) (fst (main_batch P net k sent)) \<longrightarrow>
      fst (main_fetch_all P net order k sent) =
        Inr (map projr (fst (main_batch P net k sent))) \<and>
      length (map projr (fst (main_batch P net k sent))) = 7"
  proof (intro impI conjI)
    assume ok: "list_all (\<lambda>p. \<not> isl p) (fst (main_batch P net k sent))"
    show "fst (main_fetch_all P net order k sent) =
        Inr (map projr (fst (main_batch P net k sent)))"
      by (simp only: fst_main_fetch_all promise_all_fulfilled[OF ok])
    show "length (map projr (fst (main_batch P net k sent))) = 7"
      by (simp add: length_main_batch)
  qed
  show "\<not> list_all (\<lambda>p. \<not> isl p) (fst (main_batch P net k sent)) \<longrightarrow>
      (\<exists>e. fst (main_fetch_all P net order k sent) = Inl e \<and>
           Inl e \<in> set (fst (main_batch P net k sent)) \<and>
           (getAuthKey tok P net sent' = (Inr k, sent) \<longrightarrow>
              fst (main tok P net order sent') = Inl e))"
  proof
    assume failed: "\<not> list_all (\<lambda>p. \<not> isl p) (fst (main_batch P net k sent))"
    from promise_all_rejected[OF failed, of order]
    obtain e where e: "fst (main_fetch_all P net order k sent) = Inl e"
      "Inl e \<in> set (fst (main_batch P net k sent))"
      unfolding fst_main_fetch_all by blast
    have "fst (main tok P net order sent') = Inl e"
      if "getAuthKey tok P net sent' = (Inr k, sent)"
      using main_batch_rejected[OF that e(1)] by simp
    with e show "\<exists>e. fst (main_fetch_all P net order k sent) = Inl e \<and>
           Inl e \<in> set (fst (main_batch P net k sent)) \<and>
           (getAuthKey tok P net sent' = (Inr k, sent) \<longrightarrow>
              fst (main tok P net order sent') = Inl e)"
      by blast
  qed
  show "\<forall>pre i rest e.
      order = pre @ i # rest \<longrightarrow>
      (\<forall>j \<in> set pre. j < 7 \<longrightarrow> \<not> isl (fst (main_batch P net k sent) ! j)) \<longrightarrow>
      i < 7 \<longrightarrow> fst (main_batch P net k sent) ! i = Inl e \<longrightarrow>
      fst (main_fetch_all P net order k sent) = Inl e \<and>
      (getAuthKey tok P net sent' = (Inr k, sent) \<longrightarrow>
         fst (main tok P net order sent') = Inl e)"
  proof (intro allI impI)
    fix pre i rest e
    assume "order = pre @ i # rest"
      and "\<forall>j \<in> set pre. j < 7 \<longrightarrow> \<not> isl (fst (main_batch P net k sent) ! j)"
      and "i < 7" and "fst (main_batch P net k sent) ! i = Inl e"
    then have rejected: "fst (main_fetch_all P net order k sent) = Inl e"
      unfolding fst_main_fetch_all
      by (intro promise_all_first_rejection[of order pre i rest])
         (simp_all add: length_main_batch)
    have "fst (main tok P net order sent') = Inl e"
      if "getAuthKey tok P net sent' = (Inr k, sent)"
      using main_batch_rejected[OF that rejected] by simp
    with rejected show "fst (main_fetch_all P net order k sent) = Inl e \<and>
      (getAuthKey tok P net sent' = (Inr k, sent) \<longrightarrow>
         fst (main tok P net order sent') = Inl e)"
      by blast
  qed
  show "\<forall>d s r sc sd m p.
      getAuthKey tok P net sent' = (Inr k, sent) \<longrightarrow>
      fst (main_fetch_all P net order k sent) = Inr [d, s, r, sc, sd, m, p] \<longrightarrow>
      fst (main tok P net order sent') =
        (if d = JNull then Inl (null_read_error ''devices'')
         else if s = JNull then Inl (null_read_error ''devices'')
         else if r = JNull then Inl (null_read_error ''rooms'')
         else if sc = JNull then Inl (null_read_error ''scenes'')
         else Inr (JObj [(''devices'', d), (''sensors'', s), (''rooms'', r), (''scenes'', sc),
                         (''securityDevices'', sd), (''mediaRooms'', m),
                         (''playAction'', p)]))"
  proof (intro allI impI)
    fix d s r sc sd m p
    assume login: "getAuthKey tok P net sent' = (Inr k, sent)"
      and all: "fst (main_fetch_all P net order k sent) = Inr [d, s, r, sc, sd, m, p]"
    from main_batch_fulfilled[OF login all]
    show "fst (main tok P net order sent') =
        (if d = JNull then Inl (null_read_error ''devices'')
         else if s = JNull then Inl (null_read_error ''devices'')
         else if r = JNull then Inl (null_read_error ''rooms'')
         else if sc = JNull then Inl (null_read_error ''scenes'')
         else Inr (JObj [(''devices'', d), (''sensors'', s), (''rooms'', r), (''scenes'', sc),
                         (''securityDevices'', sd), (''mediaRooms'', m),
                         (''playAction'', p)]))"
      by simp
  qed
qed

lemma batch_hub_numbered:
  "fst (main_batch parse_sample hub_numbered (JStr ''K1'') s) =
     [Inr (JNum 1), Inr (JNum 2), Inr (JNum 3), Inr (JNum 4), Inr (JNum 5),
      Inr (JNum 6), Inr (JNum 7)]"
  by (simp add: fst_main_batch keyed_members[THEN keyed_operation_eq] hub_numbered_def
        is_login_def keyed_request_def request_options_def parse_sample_def)

lemma login_hub_numbered:
  "getAuthKey ''T1'' parse_sample hub_numbered [] =
     (Inr (JStr ''K1''), [login_request ''T1''])"
  by (simp add: getAuthKey_eq hub_numbered_def login_ok_def is_login_login_request
        parse_sample_def ToBoolean_def)

lemma batch_hub_ok:
  "fst (main_batch parse_sample hub_ok (JStr ''K1'') s) =
     [Inr (JObj []), Inr (JObj []), Inr (JObj []), Inr (JObj []), Inr (JObj []),
      Inr (JObj []), Inr (JObj [])]"
proof -
  have "hub_ok s' (keyed_request pth mth (JStr ''K1'')) = Response 200 [''{}'']"
    if "(pth, mth, label, f) \<in> set keyed_operations" for s' pth mth label f
    using not_login_keyed_request[OF that] by (simp add: hub_ok_def)
  note answers = keyed_members[THEN this]
  show ?thesis
    by (simp add: fst_main_batch keyed_members[THEN keyed_operation_eq] answers
          parse_sample_def)
qed

lemma batch_hub_sensors_down:
  "fst (main_batch parse_sample hub_sensors_down (JStr ''K1'') s) =
     [Inr (JObj []),
      Inl (Error ''Failed to get sensors: connect ECONNREFUSED 10.1.1.40:443''),
      Inr (JObj []), Inr (JObj []), Inr (JObj []), Inr (JObj []), Inr (JObj [])]"
  by (simp add: fst_main_batch keyed_members[THEN keyed_operation_eq] hub_sensors_down_def
        is_login_def keyed_request_def request_options_def parse_sample_def)

lemma login_hub_sensors_down:
  "getAuthKey ''T1'' parse_sample hub_sensors_down [] =
     (Inr (JStr ''K1''), [login_request ''T1''])"
  by (simp add: getAuthKey_eq hub_sensors_down_def login_ok_def is_login_login_request
        parse_sample_def ToBoolean_def)

text \<open>Against the hub that numbers its answers the seven results arrive in the order
  written, 1 to 7, also when the operations complete in reverse, and \<^verbatim>\<open>main\<close> writes them
  out under their names; with the sensor list refused the batch is rejected with that
  error, first to fail after the device list, and \<^verbatim>\<open>main\<close> ends with that error.\<close>

theorem batch_is_all_or_nothing_witness:
  "list_all (\<lambda>p. \<not> isl p)
     (fst (main_batch parse_sample hub_numbered (JStr ''K1'') [login_request ''T1''])) \<and>
   getAuthKey ''T1'' parse_sample hub_numbered [] =
     (Inr (JStr ''K1''), [login_request ''T1'']) \<and>
   fst (main_fetch_all parse_sample hub_numbered [6, 5, 4, 3, 2, 1, 0] (JStr ''K1'')
          [login_request ''T1'']) =
     Inr [JNum 1, JNum 2, JNum 3, JNum 4, JNum 5, JNum 6, JNum 7] \<and>
   fst (main ''T1'' parse_sample hub_numbered [6, 5, 4, 3, 2, 1, 0] []) =
     Inr (JObj [(''devices'', JNum 1), (''sensors'', JNum 2), (''rooms'', JNum 3),
                (''scenes'', JNum 4), (''securityDevices'', JNum 5),
                (''mediaRooms'', JNum 6), (''playAction'', JNum 7)]) \<and>
   \<not> list_all (\<lambda>p. \<not> isl p)
     (fst (main_batch parse_sample hub_sensors_down (JStr ''K1'') [login_request ''T1''])) \<and>
   getAuthKey ''T1'' parse_sample hub_sensors_down [] =
     (Inr (JStr ''K1''), [login_request ''T1'']) \<and>
   fst (main_fetch_all parse_sample hub_sensors_down [0, 1, 2, 3, 4, 5, 6] (JStr ''K1'')
          [login_request ''T1'']) =
     Inl (Error ''Failed to get sensors: connect ECONNREFUSED 10.1.1.40:443'') \<and>
   fst (main ''T1'' parse_sample hub_sensors_down [0, 1, 2, 3, 4, 5, 6] []) =
     Inl (Error ''Failed to get sensors: connect ECONNREFUSED 10.1.1.40:443'')"
proof -
  note numbered = batch_is_all_or_nothing
      [of parse_sample hub_numbered "JStr ''K1''" "[login_request ''T1'']"
          "[6, 5, 4, 3, 2, 1, 0]" "''T1''" "[]"]
  have ok: "list_all (\<lambda>p. \<not> isl p)
      (fst (main_batch parse_sample hub_numbered (JStr ''K1'') [login_request ''T1'']))"
    by (simp add: batch_hub_numbered)
  from numbered ok
  have "fst (main_fetch_all parse_sample hub_numbered [6, 5, 4, 3, 2, 1, 0] (JStr ''K1'')
      [login_request ''T1'']) =
      Inr (map projr (fst (main_batch parse_sample hub_numbered (JStr ''K1'')
                             [login_request ''T1''])))"
    by blast
  then have all: "fst (main_fetch_all parse_sample hub_numbered [6, 5, 4, 3, 2, 1, 0]
      (JStr ''K1'') [login_request ''T1'']) =
      Inr [JNum 1, JNum 2, JNum 3, JNum 4, JNum 5, JNum 6, JNum 7]"
    by (simp add: batch_hub_numbered)
  from numbered
  have "getAuthKey ''T1'' parse_sample hub_numbered [] =
        (Inr (JStr ''K1''), [login_request ''T1'']) \<longrightarrow>
      fst (main_fetch_all parse_sample hub_numbered [6, 5, 4, 3, 2, 1, 0] (JStr ''K1'')
             [login_request ''T1'']) =
        Inr [JNum 1, JNum 2, JNum 3, JNum 4, JNum 5, JNum 6, JNum 7] \<longrightarrow>
      fst (main ''T1'' parse_sample hub_numbered [6, 5, 4, 3, 2, 1, 0] []) =
        (if JNum 1 = JNull then Inl (null_read_error ''devices'')
         else if JNum 2 = JNull then Inl (null_read_error ''devices'')
         else if JNum 3 = JNull then Inl (null_read_error ''rooms'')
         else if JNum 4 = JNull then Inl (null_read_error ''scenes'')
         else Inr (JObj [(''devices'', JNum 1), (''sensors'', JNum 2), (''rooms'', JNum 3),
                         (''scenes'', JNum 4), (''securityDevices'', JNum 5),
                         (''mediaRooms'', JNum 6), (''playAction'', JNum 7)]))"
    by blast
  with login_hub_numbered all
  have written: "fst (main ''T1'' parse_sample hub_numbered [6, 5, 4, 3, 2, 1, 0] []) =
     Inr (JObj [(''devices'', JNum 1), (''sensors'', JNum 2), (''rooms'', JNum 3),
                (''scenes'', JNum 4), (''securityDevices'', JNum 5),
                (''mediaRooms'', JNum 6), (''playAction'', JNum 7)])"
    by simp
  note down = batch_is_all_or_nothing
      [of parse_sample hub_sensors_down "JStr ''K1''" "[login_request ''T1'']"
          "[0, 1, 2, 3, 4, 5, 6]" "''T1''" "[]"]
  have failed: "\<not> list_all (\<lambda>p. \<not> isl p)
      (fst (main_batch parse_sample hub_sensors_down (JStr ''K1'') [login_request ''T1'']))"
    by (simp add: batch_hub_sensors_down)
  have order: "[0, 1, 2, 3, 4, 5, 6] = [0] @ 1 # [2, 3, 4, 5, 6 :: nat]"
    by simp
  have before: "\<forall>j \<in> set [0 :: nat]. j < 7 \<longrightarrow>
      \<not> isl (fst (main_batch parse_sample hub_sensors_down (JStr ''K1'')
                     [login_request ''T1'']) ! j)"
    by (simp add: batch_hub_sensors_down)
  have at: "fst (main_batch parse_sample hub_sensors_down (JStr ''K1'')
      [login_request ''T1'']) ! 1 =
      Inl (Error ''Failed to get sensors: connect ECONNREFUSED 10.1.1.40:443'')"
    by (simp add: batch_hub_sensors_down)
  from down
  have "[0, 1, 2, 3, 4, 5, 6] = [0] @ 1 # [2, 3, 4, 5, 6 :: nat] \<longrightarrow>
      (\<forall>j \<in> set [0 :: nat]. j < 7 \<longrightarrow>
         \<not> isl (fst (main_batch parse_sample hub_sensors_down (JStr ''K1'')
                        [login_request ''T1'']) ! j)) \<longrightarrow>
      (1 :: nat) < 7 \<longrightarrow>
      fst (main_batch parse_sample hub_sensors_down (JStr ''K1'')
             [login_request ''T1'']) ! 1 =
        Inl (Error ''Failed to get sensors: connect ECONNREFUSED 10.1.1.40:443'') \<longrightarrow>
      fst (main_fetch_all parse_sample hub_sensors_down [0, 1, 2, 3, 4, 5, 6] (JStr ''K1'')
             [login_request ''T1'']) =
        Inl (Error ''Failed to get sensors: connect ECONNREFUSED 10.1.1.40:443'') \<and>
      (getAuthKey ''T1'' parse_sample hub_sensors_down [] =
         (Inr (JStr ''K1''), [login_request ''T1'']) \<longrightarrow>
       fst (main ''T1'' parse_sample hub_sensors_down [0, 1, 2, 3, 4, 5, 6] []) =
         Inl (Error ''Failed to get sensors: connect ECONNREFUSED 10.1.1.40:443''))"
    by blast
  with order before at login_hub_sensors_down
  have none: "fst (main_fetch_all parse_sample hub_sensors_down [0, 1, 2, 3, 4, 5, 6]
      (JStr ''K1'') [login_request ''T1'']) =
      Inl (Error ''Failed to get sensors: connect ECONNREFUSED 10.1.1.40:443'') \<and>
    fst (main ''T1'' parse_sample hub_sensors_down [0, 1, 2, 3, 4, 5, 6] []) =
      Inl (Error ''Failed to get sensors: connect ECONNREFUSED 10.1.1.40:443'')"
    by simp
  from ok login_hub_numbered all written failed login_hub_sensors_down none
  show ?thesis by blast
qed

text \<open>
  The claim as the specification words it fails: with the sensor list refused and the six
  other operations answered, the caller of the batch receives the one error and none of
  the six results, and \<^verbatim>\<open>main\<close> prints that error and exits.
\<close>

theorem one_failure_rejects_batch_counterexample:
  "fst (main_batch parse_sample hub_sensors_down (JStr ''K1'') [login_request ''T1'']) =
     [Inr (JObj []),
      Inl (Error ''Failed to get sensors: connect ECONNREFUSED 10.1.1.40:443''),
      Inr (JObj []), Inr (JObj []), Inr (JObj []), Inr (JObj []), Inr (JObj [])] \<and>
   fst (main_fetch_all parse_sample hub_sensors_down [0, 1, 2, 3, 4, 5, 6] (JStr ''K1'')
          [login_request ''T1'']) =
     Inl (Error ''Failed to get sensors: connect ECONNREFUSED 10.1.1.40:443'') \<and>
   fst (main ''T1'' parse_sample hub_sensors_down [0, 1, 2, 3, 4, 5, 6] []) =
     Inl (Error ''Failed to get sensors: connect ECONNREFUSED 10.1.1.40:443'')"
proof -
  have rejected: "promise_all [0, 1, 2, 3, 4, 5, 6]
      (fst (main_batch parse_sample hub_sensors_down (JStr ''K1'') [login_request ''T1''])) =
      Inl (Error ''Failed to get sensors: connect ECONNREFUSED 10.1.1.40:443'')"
    by (rule promise_all_first_rejection[of _ "[0]" 1 "[2, 3, 4, 5, 6]"])
       (simp_all add: batch_hub_sensors_down)
  then have "fst (main ''T1'' parse_sample hub_sensors_down [0, 1, 2, 3, 4, 5, 6] []) =
      Inl (Error ''Failed to get sensors: connect ECONNREFUSED 10.1.1.40:443'')"
    by (simp add: main_def login_hub_sensors_down main_fetch_all_def split_beta)
  with rejected show ?thesis
    by (simp add: batch_hub_sensors_down fst_main_fetch_all)
qed

section \<open>Validation of light commands\<close>

lemma find_first_offender:
  assumes "r \<in> set requests" and "\<not> Q r"
  shows "\<exists>r'. find (\<lambda>r. \<not> Q r) requests = Some r' \<and> r' \<in> set requests \<and> \<not> Q r'"
  using assms
proof (induction requests)
  case Nil
  then show ?case by simp
next
  case (Cons x xs)
  show ?case
  proof (cases "Q x")
    case True
    with Cons.prems have "r \<in> set xs" by auto
    from Cons.IH[OF this Cons.prems(2)] True show ?thesis by auto
  next
    case False
    then show ?thesis by simp
  qed
qed

text \<open>
  Claim C4. When some command of the sequence has a level outside [0, 65535],
  \<^verbatim>\<open>setLightLevels\<close> fails with a \<^verbatim>\<open>ValidationError\<close> that names the id of a command of the
  sequence whose level is out of range (the first such), and the list of requests issued
  is the one it was given: no network call was made, whatever the dispatch would do.
\<close>

theorem setLightLevels_rejects_out_of_range:
  assumes "r \<in> set requests" and "level r < 0 \<or> 65535 < level r"
  shows "\<exists>r' \<in> set requests.
           (level r' < 0 \<or> 65535 < level r') \<and>
           setLightLevels call requests sent = (Inl (ValidationError (light_id r')), sent)"
proof -
  from assms(2) have "\<not> level_in_range (level r)"
    by (auto simp: level_in_range_def)
  from find_first_offender[of r requests "\<lambda>r. level_in_range (level r)", OF assms(1) this]
  obtain r' where first: "find (\<lambda>r. \<not> level_in_range (level r)) requests = Some r'"
    and r': "r' \<in> set requests" "\<not> level_in_range (level r')"
    by blast
  from first have "setLightLevels call requests sent = (Inl (ValidationError (light_id r')), sent)"
    by (simp add: setLightLevels_def)
  moreover from r'(2) have "level r' < 0 \<or> 65535 < level r'"
    by (auto simp: level_in_range_def)
  ultimately show ?thesis using r'(1) by blast
qed

text \<open>Two commands, the second with level 70000: the error names 12 and nothing is sent.\<close>

theorem setLightLevels_rejects_out_of_range_witness:
  "\<lparr>light_id = 12, level = 70000, time = 500\<rparr>
     \<in> set [\<lparr>light_id = 10, level = 65535, time = 0\<rparr>,
            \<lparr>light_id = 12, level = 70000, time = 500\<rparr>] \<and>
   (65535 :: int) < level \<lparr>light_id = 12, level = 70000, time = 500\<rparr> \<and>
   setLightLevels call_sample
     [\<lparr>light_id = 10, level = 65535, time = 0\<rparr>,
      \<lparr>light_id = 12, level = 70000, time = 500\<rparr>] [] =
     (Inl (ValidationError 12), [])"
proof -
  have mem: "\<lparr>light_id = 12, level = 70000, time = 500\<rparr>
     \<in> set [\<lparr>light_id = 10, level = 65535, time = 0\<rparr>,
            \<lparr>light_id = 12, level = 70000, time = 500\<rparr>]"
    by simp
  have high: "level \<lparr>light_id = 12, level = 70000, time = 500\<rparr> < 0 \<or>
      65535 < level \<lparr>light_id = 12, level = 70000, time = 500\<rparr>"
    by simp
  from setLightLevels_rejects_out_of_range[OF mem high, of call_sample "[]"]
  have "setLightLevels call_sample
     [\<lparr>light_id = 10, level = 65535, time = 0\<rparr>,
      \<lparr>light_id = 12, level = 70000, time = 500\<rparr>] [] =
     (Inl (ValidationError 12), [])"
    by auto
  with mem show ?thesis by simp
qed

end
